theory Spec2Isabelle
  imports Complex_Main "HOL-Library.Sublist" "HOL-Library.Word"
begin

section \<open>Python text\<close>

text \<open>
  A Python \<open>str\<close> is a sequence of code points. The model uses \<open>string\<close>, one
  \<open>char\<close> per code point, which covers the code points below 256. In that range
  \<open>str.isspace\<close> holds for exactly TAB, LF, VT, FF, CR, the four separators
  0x1C..0x1F, the space, NEL (0x85) and the no-break space (0xA0); \<open>str.strip()\<close>
  removes the longest run of such characters from both ends.
\<close>

definition isspace :: "char \<Rightarrow> bool" where
  "isspace c = (of_char c \<in> {9, 10, 11, 12, 13, 28, 29, 30, 31, 32, 133, 160 :: nat})"

definition strip :: "string \<Rightarrow> string" where
  "strip s = rev (dropWhile isspace (rev (dropWhile isspace s)))"

section \<open>Output extractor\<close>

text \<open>
  \<open>extract_result_from_codex_output\<close> searches stderr with the regular expression
  \<^verbatim>\<open>codex\n(.+?)(?:tokens used|\Z)\<close> under \<open>re.DOTALL\<close>. The three functions below
  are that search, written out: \<open>re_search\<close> tries the start positions from left
  to right; \<open>match_here\<close> matches the literal \<^verbatim>\<open>codex\n\<close> and then the group, which
  takes at least one character (any character, a newline too); \<open>lazy_rest\<close> extends
  the group one character at a time and stops at the first position where
  \<^verbatim>\<open>tokens used\<close> follows or where stderr ends. The result is group 1 of the match.
\<close>

definition leading_marker :: string where
  "leading_marker = ''codex\<newline>''"

definition trailing_marker :: string where
  "trailing_marker = ''tokens used''"

fun lazy_rest :: "string \<Rightarrow> string" where
  "lazy_rest [] = []"
| "lazy_rest (c # cs) = (if prefix trailing_marker (c # cs) then [] else c # lazy_rest cs)"

definition match_here :: "string \<Rightarrow> string option" where
  "match_here s =
     (if prefix leading_marker s
      then (case drop (length leading_marker) s of
              [] \<Rightarrow> None
            | c # cs \<Rightarrow> Some (c # lazy_rest cs))
      else None)"

fun re_search :: "string \<Rightarrow> string option" where
  "re_search [] = match_here []"
| "re_search (c # cs) =
     (case match_here (c # cs) of
        Some g \<Rightarrow> Some g
      | None \<Rightarrow> re_search cs)"

definition extract_result_from_codex_output :: "string \<Rightarrow> string \<Rightarrow> string" where
  "extract_result_from_codex_output stdout stderr =
     (let result = strip stdout;
          result = (if result = [] \<and> stderr \<noteq> []
                    then (case re_search stderr of
                            Some g \<Rightarrow> strip g
                          | None \<Rightarrow> result)
                    else result)
      in if result \<noteq> [] then result else ''No output from Codex'')"

text \<open>
  \<open>marker_count\<close> is the number of positions of \<open>s\<close> at which the leading marker
  starts. What the expression finds, stated without the search: \<open>seg\<close> is the segment of
  \<open>s\<close> when \<open>s\<close> is \<open>pre\<close>, the leading marker, \<open>seg\<close> and \<open>rest\<close> in this order,
  no leading marker starts inside \<open>pre\<close> (it is the first one), \<open>seg\<close> has at least
  one character, \<open>rest\<close> is empty or starts with the trailing marker, and the trailing
  marker starts at no position of \<open>seg\<close> after its first character.
\<close>

definition marker_count :: "string \<Rightarrow> nat" where
  "marker_count s = length (filter (\<lambda>i. prefix leading_marker (drop i s)) [0..<length s])"

definition first_segment :: "string \<Rightarrow> string \<Rightarrow> bool" where
  "first_segment s seg =
     (\<exists>pre rest.
        s = pre @ leading_marker @ seg @ rest \<and>
        (\<forall>j<length pre. \<not> prefix leading_marker (drop j s)) \<and>
        seg \<noteq> [] \<and>
        (\<forall>k. 0 < k \<and> k < length seg \<longrightarrow> \<not> prefix trailing_marker (drop k (seg @ rest))) \<and>
        (rest = [] \<or> prefix trailing_marker rest))"

section \<open>Python values and exceptions\<close>

text \<open>
  Requests and responses are the Python values \<open>json.loads\<close> returns and
  \<open>json.dumps\<close> prints: \<open>None\<close>, booleans, numbers, strings, lists and dictionaries.
  A dictionary is the list of its items in insertion order (the keys are distinct, as
  in a Python \<open>dict\<close>). Numbers are never computed with, so one constructor holds
  integers and floats alike.
\<close>

datatype json =
    JNull
  | JBool bool
  | JNum real
  | JStr string
  | JArr "json list"
  | JObj "(string \<times> json) list"

text \<open>
  The exceptions the code can meet. Only \<open>JSONDecodeError\<close> is caught (in \<open>main\<close>);
  it carries the text \<open>str(e)\<close>. \<open>OSError\<close> is what the file system answers to a
  path it cannot examine, \<open>RecursionError\<close> what \<open>json.loads\<close> raises on a text nested
  too deeply, and \<open>OtherError\<close> stands for whatever else \<open>subprocess.Popen\<close> raises
  when the launch fails.
\<close>

datatype error =
    AttributeError
  | TypeError
  | ValueError
  | JSONDecodeError string
  | OSError string
  | RecursionError
  | OtherError string

text \<open>\<open>d.get(k)\<close> and \<open>d.get(k, default)\<close>; \<open>x.get\<close> on anything but a dictionary
  raises AttributeError.\<close>

definition dict_get_default :: "(string \<times> json) list \<Rightarrow> string \<Rightarrow> json \<Rightarrow> json" where
  "dict_get_default d k dflt = (case map_of d k of None \<Rightarrow> dflt | Some v \<Rightarrow> v)"

definition dict_get :: "(string \<times> json) list \<Rightarrow> string \<Rightarrow> json" where
  "dict_get d k = dict_get_default d k JNull"

definition as_dict :: "json \<Rightarrow> error + (string \<times> json) list" where
  "as_dict j = (case j of JObj d \<Rightarrow> Inr d | _ \<Rightarrow> Inl AttributeError)"

text \<open>Truth value of a Python object, as \<open>if x:\<close>, \<open>not x\<close> and \<open>x or y\<close> test it.\<close>

fun truthy :: "json \<Rightarrow> bool" where
  "truthy JNull = False"
| "truthy (JBool b) = b"
| "truthy (JNum r) = (r \<noteq> 0)"
| "truthy (JStr s) = (s \<noteq> [])"
| "truthy (JArr xs) = (xs \<noteq> [])"
| "truthy (JObj d) = (d \<noteq> [])"

text \<open>What \<open>list.extend(x)\<close> appends: the elements of a list, the characters of a
  string, the keys of a dictionary; anything else is not iterable.\<close>

definition iterate :: "json \<Rightarrow> error + json list" where
  "iterate x =
     (case x of
        JArr xs \<Rightarrow> Inr xs
      | JStr s \<Rightarrow> Inr (map (\<lambda>c. JStr [c]) s)
      | JObj d \<Rightarrow> Inr (map (\<lambda>kv. JStr (fst kv)) d)
      | _ \<Rightarrow> Inl TypeError)"

text \<open>\<open>int(x)\<close> of a float truncates towards zero.\<close>

definition py_int :: "real \<Rightarrow> int" where
  "py_int x = (if 0 \<le> x then \<lfloor>x\<rfloor> else \<lceil>x\<rceil>)"

text \<open>An integer as an f-string prints it.\<close>

fun show_nat :: "nat \<Rightarrow> string" where
  "show_nat n =
     (if n < 10 then [char_of (48 + n)]
      else show_nat (n div 10) @ [char_of (48 + n mod 10)])"

definition show_int :: "int \<Rightarrow> string" where
  "show_int i = (if i < 0 then ''-'' @ show_nat (nat (- i)) else show_nat (nat i))"

text \<open>
  The library functions the model does not spell out: \<open>json_loads\<close> is \<open>json.loads\<close>
  (\<open>Inl\<close> the exception it raises), and \<open>py_repr\<close> is the text an f-string prints
  for a number, a list or a dictionary. Strings, \<open>None\<close> and booleans print as below.
\<close>

record library =
  json_loads :: "string \<Rightarrow> error + json"
  py_repr :: "json \<Rightarrow> string"

definition py_str :: "library \<Rightarrow> json \<Rightarrow> string" where
  "py_str L x =
     (case x of
        JStr s \<Rightarrow> s
      | JNull \<Rightarrow> ''None''
      | JBool b \<Rightarrow> (if b then ''True'' else ''False'')
      | _ \<Rightarrow> py_repr L x)"

section \<open>Paths of the task directory\<close>

text \<open>
  A path is the list of its components below the root \<open>/\<close>. \<open>TASK_DIR / task_id\<close>
  parses \<open>task_id\<close> as \<open>pathlib\<close> does on POSIX: split at \<open>/\<close>, empty and \<open>.\<close>
  components dropped, and an id that starts with \<open>/\<close> replaces the directory.
  \<open>with_suffix\<close> raises ValueError on a path with no final component and otherwise
  replaces the suffix of the final component: the part from its last dot, when that
  dot is neither its first nor its last character (CPython up to 3.12).
\<close>

type_synonym path = "string list"

definition TASK_DIR :: path where
  "TASK_DIR = [''tmp'', ''codex_tasks'']"

fun split_sep :: "string \<Rightarrow> string list" where
  "split_sep [] = [[]]"
| "split_sep (c # cs) =
     (if c = CHR ''/'' then [] # split_sep cs
      else (case split_sep cs of
              [] \<Rightarrow> [[c]]
            | p # ps \<Rightarrow> (c # p) # ps))"

definition path_parts :: "string \<Rightarrow> path" where
  "path_parts s = filter (\<lambda>p. p \<noteq> [] \<and> p \<noteq> ''.'') (split_sep s)"

definition path_join :: "path \<Rightarrow> string \<Rightarrow> path" where
  "path_join base s = (if prefix ''/'' s then path_parts s else base @ path_parts s)"

definition path_suffix :: "string \<Rightarrow> string" where
  "path_suffix name =
     (let r = takeWhile (\<lambda>c. c \<noteq> CHR ''.'') (rev name)
      in if r \<noteq> [] \<and> Suc (length r) < length name
         then drop (length name - Suc (length r)) name
         else [])"

definition with_suffix :: "path \<Rightarrow> string \<Rightarrow> error + path" where
  "with_suffix p sfx =
     (if p = [] then Inl ValueError
      else (let name = last p;
                stem = take (length name - length (path_suffix name)) name
            in Inr (butlast p @ [stem @ sfx])))"

section \<open>The world: task store, clock and external processes\<close>

text \<open>
  A capture artifact is a text file with its last-modified time; a metadata artifact
  holds the dictionary \<open>start_codex_async\<close> writes with \<open>json.dump\<close> (and
  \<open>check_task_status\<close> rewrites), a record with one field per key and \<open>completed_at\<close>
  present or not. Times are seconds since the epoch, modelled as reals (the rounding
  of floats is not).
\<close>

record capture =
  content :: string
  mtime :: real

record metadata =
  task_id :: string
  pid :: int
  status :: string
  command :: string
  started_at :: real
  completed_at :: "real option"

text \<open>\<open>subprocess.run\<close> ends in one of three ways.\<close>

datatype run_outcome =
    Exited string string
  | TimeoutExpired
  | Raised string

text \<open>
  The world a request runs in: the two kinds of files of the task directory by path;
  the error \<open>Path.exists()\<close> raises on a path that holds no file (\<open>stat_error\<close>: which
  errors of \<open>os.stat\<close> it passes on depends on the platform and the Python version;
  up to CPython 3.12 a name longer than the file system allows is one); the readings
  \<open>time.time()\<close> returns in order and how many were taken; the values
  \<open>uuid.uuid4()\<close> returns in order and how many were drawn; and what launching a
  command does: \<open>popen\<close> gives the process id or the exception of \<open>subprocess.Popen\<close>,
  \<open>run\<close> the outcome of \<open>subprocess.run\<close> for a command and a timeout. The background
  process writes to its capture files on its own; the model looks at the files at one
  moment and does not follow those writes.
\<close>

record world =
  meta_files :: "path \<rightharpoonup> metadata"
  capture_files :: "path \<rightharpoonup> capture"
  stat_error :: "path \<Rightarrow> error option"
  clock :: "nat \<Rightarrow> real"
  ticks :: nat
  uuid4 :: "nat \<Rightarrow> 128 word"
  draws :: nat
  popen :: "json list \<Rightarrow> error + int"
  run :: "json list \<Rightarrow> json \<Rightarrow> run_outcome"

definition time_time :: "world \<Rightarrow> real \<times> world" where
  "time_time w = (clock w (ticks w), w\<lparr>ticks := Suc (ticks w)\<rparr>)"

text \<open>\<open>str(uuid)\<close>: 32 lower-case hexadecimal digits, most significant first, in
  groups of 8, 4, 4, 4 and 12.\<close>

definition hex_digit :: "nat \<Rightarrow> char" where
  "hex_digit n = ''0123456789abcdef'' ! (n mod 16)"

definition uuid_hex :: "128 word \<Rightarrow> string" where
  "uuid_hex u = map (\<lambda>i. hex_digit (unat (drop_bit (4 * i) u))) (rev [0..<32])"

definition uuid_str :: "128 word \<Rightarrow> string" where
  "uuid_str u =
     (let h = uuid_hex u
      in take 8 h @ ''-'' @ take 4 (drop 8 h) @ ''-'' @ take 4 (drop 12 h) @ ''-'' @
         take 4 (drop 16 h) @ ''-'' @ drop 20 h)"

text \<open>\<open>open(path, 'w')\<close> followed by \<open>close()\<close>: the file exists afterwards, empty,
  stamped with the current time.\<close>

definition create_capture :: "world \<Rightarrow> path \<Rightarrow> world" where
  "create_capture w p =
     w\<lparr>capture_files := (capture_files w)(p \<mapsto> \<lparr>content = [], mtime = clock w (ticks w)\<rparr>)\<rparr>"

text \<open>The command line both executors build: \<open>args = args or []\<close>,
  \<open>cmd = ['codex', subcommand]\<close>, the prompt appended when it is truthy, then
  \<open>cmd.extend(args)\<close>.\<close>

definition build_cmd :: "json \<Rightarrow> json \<Rightarrow> json \<Rightarrow> error + json list" where
  "build_cmd subcommand prompt args =
     (let args = (if truthy args then args else JArr [])
      in case iterate args of
           Inl e \<Rightarrow> Inl e
         | Inr xs \<Rightarrow> Inr ([JStr ''codex'', subcommand] @ (if truthy prompt then [prompt] else []) @ xs))"

text \<open>\<open>' '.join(cmd)\<close> raises TypeError on an item that is not a string.\<close>

fun join_cmd :: "json list \<Rightarrow> error + string" where
  "join_cmd [] = Inr []"
| "join_cmd [JStr s] = Inr s"
| "join_cmd (JStr s # x # xs) =
     (case join_cmd (x # xs) of Inl e \<Rightarrow> Inl e | Inr t \<Rightarrow> Inr (s @ '' '' @ t))"
| "join_cmd (_ # xs) = Inl TypeError"

section \<open>Process launcher\<close>

text \<open>
  \<open>start_codex_async\<close>: the task id is the first eight characters of a fresh UUID;
  the two capture files are opened for writing and closed, the process is launched
  on them, and the metadata record is written last. Opening a file is taken to
  succeed (the task directory exists and can be written). Every exception leaves
  through \<open>Inl\<close>; only a completed launch returns the id.
\<close>

definition start_codex_async ::
  "world \<Rightarrow> json \<Rightarrow> json \<Rightarrow> json \<Rightarrow> error + (string \<times> world)" where
  "start_codex_async w subcommand prompt args =
     (let tid = take 8 (uuid_str (uuid4 w (draws w)));
          w0 = w\<lparr>draws := Suc (draws w)\<rparr>;
          task_path = path_join TASK_DIR tid
      in case build_cmd subcommand prompt args of
           Inl e \<Rightarrow> Inl e
         | Inr cmd \<Rightarrow>
      (case with_suffix task_path ''.stdout'' of
           Inl e \<Rightarrow> Inl e
         | Inr stdout_file \<Rightarrow>
      (let w1 = create_capture w0 stdout_file
       in case with_suffix task_path ''.stderr'' of
            Inl e \<Rightarrow> Inl e
          | Inr stderr_file \<Rightarrow>
      (let w2 = create_capture w1 stderr_file
       in case popen w2 cmd of
            Inl e \<Rightarrow> Inl e
          | Inr proc_pid \<Rightarrow>
      (case join_cmd cmd of
            Inl e \<Rightarrow> Inl e
          | Inr cmdline \<Rightarrow>
      (let (now, w3) = time_time w2;
           md = \<lparr>task_id = tid, pid = proc_pid, status = ''running'',
                 command = cmdline, started_at = now, completed_at = None\<rparr>
       in case with_suffix task_path ''.meta'' of
            Inl e \<Rightarrow> Inl e
          | Inr meta_file \<Rightarrow>
              Inr (tid, w3\<lparr>meta_files := (meta_files w3)(meta_file \<mapsto> md)\<rparr>)))))))"

section \<open>Liveness inspector\<close>

text \<open>
  The dictionary \<open>check_task_status\<close> returns has one of three shapes, told apart by
  its \<open>status\<close> entry: \<open>not_found\<close> with an \<open>error\<close> text; \<open>running\<close> with the task
  id, the elapsed seconds and the command; \<open>completed\<close> with the task id, the result
  and the elapsed seconds.
\<close>

datatype status_info =
    NotFound string
  | Running string int string
  | Completed string string int

fun status_of :: "status_info \<Rightarrow> string" where
  "status_of (NotFound msg) = ''not_found''"
| "status_of (Running tid elapsed cmdline) = ''running''"
| "status_of (Completed tid result elapsed) = ''completed''"

text \<open>
  \<open>meta_file.exists()\<close> is true when the metadata file is there; when it is not, the
  test is false or raises, as the world says. The metadata file is taken to hold
  what the launcher wrote, and the tests on the two capture files, which lie beside
  it in the same directory, are taken not to raise. \<open>latest_mtime\<close> is the \<open>max\<close> of
  lines 112 to 115: a capture file that does not exist counts as 0.
  \<open>check_task_status\<close> reads the clock once for the idle time (only when a capture
  file exists), once more for the elapsed time of a running task, and twice more for
  a completed one: for \<open>completed_at\<close>, and for the default argument of
  \<open>metadata.get\<close>, which Python evaluates though the key is present.
\<close>

definition latest_mtime :: "capture option \<Rightarrow> capture option \<Rightarrow> real" where
  "latest_mtime out err =
     max (case out of Some f \<Rightarrow> mtime f | None \<Rightarrow> 0)
         (case err of Some f \<Rightarrow> mtime f | None \<Rightarrow> 0)"

definition read_text :: "capture option \<Rightarrow> string" where
  "read_text f = (case f of Some c \<Rightarrow> content c | None \<Rightarrow> [])"

definition check_task_status :: "world \<Rightarrow> string \<Rightarrow> error + (status_info \<times> world)" where
  "check_task_status w tid =
     (let task_path = path_join TASK_DIR tid
      in case with_suffix task_path ''.meta'' of
           Inl e \<Rightarrow> Inl e
         | Inr meta_file \<Rightarrow>
      (case meta_files w meta_file of
           None \<Rightarrow>
             (case stat_error w meta_file of
                Some e \<Rightarrow> Inl e
              | None \<Rightarrow> Inr (NotFound (''Task '' @ tid @ '' not found''), w))
         | Some md \<Rightarrow>
      (case with_suffix task_path ''.stdout'' of
           Inl e \<Rightarrow> Inl e
         | Inr stdout_file \<Rightarrow>
      (case with_suffix task_path ''.stderr'' of
           Inl e \<Rightarrow> Inl e
         | Inr stderr_file \<Rightarrow>
      (let out = capture_files w stdout_file;
           err = capture_files w stderr_file;
           (is_running, w1) =
             (if out \<noteq> None \<or> err \<noteq> None
              then (let (now, w') = time_time w;
                        idle_time = now - latest_mtime out err
                    in (idle_time < 10, w'))
              else (False, w))
       in if is_running
          then (let (now, w2) = time_time w1;
                    elapsed = now - started_at md
                in Inr (Running tid (py_int elapsed) (command md), w2))
          else (let result = extract_result_from_codex_output (read_text out) (read_text err);
                    (now, w2) = time_time w1;
                    md' = md\<lparr>status := ''completed'', completed_at := Some now\<rparr>;
                    w3 = w2\<lparr>meta_files := (meta_files w2)(meta_file \<mapsto> md')\<rparr>;
                    (dflt, w4) = time_time w3;
                    finished = (case completed_at md' of Some t \<Rightarrow> t | None \<Rightarrow> dflt)
                in Inr (Completed tid result (py_int (finished - started_at md')), w4)))))))"

section \<open>Synchronous executor\<close>

text \<open>
  \<open>call_codex_sync\<close>: the command is built before the \<open>try\<close>, so a value of \<open>args\<close>
  that cannot be iterated raises; inside the \<open>try\<close> the run ends normally, times out,
  or raises, and each of the three gives a string.
\<close>

definition call_codex_sync ::
  "world \<Rightarrow> json \<Rightarrow> json \<Rightarrow> json \<Rightarrow> json \<Rightarrow> error + string" where
  "call_codex_sync w subcommand prompt args timeout =
     (case build_cmd subcommand prompt args of
        Inl e \<Rightarrow> Inl e
      | Inr cmd \<Rightarrow>
          Inr (case run w cmd timeout of
                 Exited out err \<Rightarrow> extract_result_from_codex_output out err
               | TimeoutExpired \<Rightarrow> ''Error: Codex execution timed out''
               | Raised msg \<Rightarrow> ''Error calling Codex: '' @ msg))"

section \<open>Request dispatcher\<close>

text \<open>The envelopes \<open>handle_request\<close> and \<open>main\<close> send: a result, an error with its
  code and message, and the content of a text result.\<close>

definition result_response :: "json \<Rightarrow> json \<Rightarrow> json" where
  "result_response request_id res =
     JObj [(''jsonrpc'', JStr ''2.0''), (''id'', request_id), (''result'', res)]"

definition error_response :: "json \<Rightarrow> int \<Rightarrow> string \<Rightarrow> json" where
  "error_response request_id code msg =
     JObj [(''jsonrpc'', JStr ''2.0''), (''id'', request_id),
           (''error'', JObj [(''code'', JNum (of_int code)), (''message'', JStr msg)])]"

definition text_content :: "string \<Rightarrow> json" where
  "text_content t = JObj [(''content'', JArr [JObj [(''type'', JStr ''text''), (''text'', JStr t)]])]"

definition initialize_result :: json where
  "initialize_result =
     JObj [(''protocolVersion'', JStr ''2024-11-05''),
           (''capabilities'', JObj [(''tools'', JObj [])]),
           (''serverInfo'', JObj [(''name'', JStr ''codex-mcp''), (''version'', JStr ''0.2.0'')])]"

text \<open>The tool catalog of \<open>tools/list\<close>. The schemas of \<open>subcommand\<close> and \<open>args\<close> are
  the same dictionaries in the two executing tools.\<close>

definition subcommand_schema :: json where
  \<open>subcommand_schema =
     JObj
       [(''type'', JStr ''string''),
        (''description'', JStr ''Codex subcommand to execute''),
        (''enum'', JArr [JStr ''exec'', JStr ''apply'', JStr ''resume'', JStr ''sandbox'']),
        (''default'', JStr ''exec'')]\<close>

definition args_schema :: json where
  \<open>args_schema =
     JObj
       [(''type'', JStr ''array''),
        (''items'', JObj
           [(''type'', JStr ''string'')]),
        (''description'', JStr (''Additional command-line arguments. Model selection: ["-m", '' @
               ''"gpt-5-codex"] for coding (default) or ["-m", "gpt-5"] for analysis. '' @
               ''Reasoning effort: ["--config", '' @
               ''"model_reasoning_effort=low|medium|high"] (gpt-5-codex supports '' @
               ''low/medium/high; gpt-5 supports minimal/low/medium/high). Example: '' @
               ''["--full-auto", "-m", "gpt-5", "--config", '' @
               ''"model_reasoning_effort=high"]. Always include "--full-auto" for '' @
               ''non-interactive execution.''))]\<close>

definition codex_execute_tool :: json where
  \<open>codex_execute_tool =
     JObj
       [(''name'', JStr ''codex_execute''),
        (''description'',
         JStr (''Execute OpenAI Codex (GPT-5) synchronously with full control over '' @
               ''subcommand and arguments. Returns only the core result, filtering out '' @
               ''thinking process to save context. Common usage: subcommand="exec", '' @
               ''prompt="your task", args=["--full-auto"]'')),
        (''inputSchema'',
         JObj
           [(''type'', JStr ''object''),
            (''properties'',
             JObj
               [(''subcommand'', subcommand_schema),
                (''prompt'', JObj
                   [(''type'', JStr ''string''),
                    (''description'', JStr (''Main prompt/argument for the command (required for exec, optional for '' @
                           ''others)''))]),
                (''args'', args_schema),
                (''timeout'', JObj
                   [(''type'', JStr ''integer''),
                    (''description'', JStr ''Timeout in seconds (default: no limit)'')])]),
            (''required'', JArr [])])]\<close>

definition codex_execute_async_tool :: json where
  \<open>codex_execute_async_tool =
     JObj
       [(''name'', JStr ''codex_execute_async''),
        (''description'',
         JStr (''Start a Codex task in the background and return immediately with a '' @
               ''task_id. Use codex_check_result to retrieve the result later. This '' @
               ''allows you to continue working while Codex runs.'')),
        (''inputSchema'',
         JObj
           [(''type'', JStr ''object''),
            (''properties'',
             JObj
               [(''subcommand'', subcommand_schema),
                (''prompt'', JObj
                   [(''type'', JStr ''string''),
                    (''description'', JStr ''Main prompt/argument for the command'')]),
                (''args'', args_schema)]),
            (''required'', JArr [])])]\<close>

definition codex_check_result_tool :: json where
  \<open>codex_check_result_tool =
     JObj
       [(''name'', JStr ''codex_check_result''),
        (''description'',
         JStr (''Check the status of an async Codex task. Returns running/completed '' @
               ''status and the result if available.'')),
        (''inputSchema'',
         JObj
           [(''type'', JStr ''object''),
            (''properties'',
             JObj
               [(''task_id'', JObj
                   [(''type'', JStr ''string''),
                    (''description'', JStr ''The task_id returned by codex_execute_async'')])]),
            (''required'', JArr [JStr ''task_id''])])]\<close>

definition tools_list_result :: json where
  "tools_list_result =
     JObj [(''tools'', JArr [codex_execute_tool, codex_execute_async_tool, codex_check_result_tool])]"

text \<open>The text \<open>handle_request\<close> formats from a status dictionary.\<close>

definition status_text :: "string \<Rightarrow> status_info \<Rightarrow> string" where
  "status_text tid si =
     (case si of
        Running _ elapsed cmdline \<Rightarrow>
          ''Task '' @ tid @ '' is still running.\<newline>Elapsed: '' @ show_int elapsed @
          ''s\<newline>Command: '' @ cmdline
      | Completed _ result elapsed \<Rightarrow>
          ''Task '' @ tid @ '' completed in '' @ show_int elapsed @
          ''s.\<newline>\<newline>Result:\<newline>'' @ result
      | NotFound msg \<Rightarrow> msg)"

definition started_text :: "string \<Rightarrow> string" where
  \<open>started_text tid =
     ''Codex task started in background.\<newline>Task ID: '' @ tid @
     ''\<newline>\<newline>Use codex_check_result(task_id="'' @ tid @ ''") to retrieve the result.''\<close>

text \<open>
  \<open>handle_request\<close> returns the responses it sends (one, whenever it returns) and the
  world afterwards. An exception it does not catch leaves through \<open>Inl\<close>.
\<close>

definition call_tool :: "library \<Rightarrow> world \<Rightarrow> json \<Rightarrow> json \<Rightarrow> error + (json list \<times> world)" where
  "call_tool L w request_id params =
     (case as_dict params of
        Inl e \<Rightarrow> Inl e
      | Inr ps \<Rightarrow>
     (let tool_name = dict_get ps ''name'';
          arguments = dict_get_default ps ''arguments'' (JObj [])
      in if tool_name = JStr ''codex_execute'' then
           (case as_dict arguments of
              Inl e \<Rightarrow> Inl e
            | Inr a \<Rightarrow>
           (case call_codex_sync w (dict_get_default a ''subcommand'' (JStr ''exec''))
                   (dict_get a ''prompt'') (dict_get_default a ''args'' (JArr []))
                   (dict_get a ''timeout'') of
              Inl e \<Rightarrow> Inl e
            | Inr result \<Rightarrow> Inr ([result_response request_id (text_content result)], w)))
         else if tool_name = JStr ''codex_execute_async'' then
           (case as_dict arguments of
              Inl e \<Rightarrow> Inl e
            | Inr a \<Rightarrow>
           (case start_codex_async w (dict_get_default a ''subcommand'' (JStr ''exec''))
                   (dict_get a ''prompt'') (dict_get_default a ''args'' (JArr [])) of
              Inl e \<Rightarrow> Inl e
            | Inr (tid, w') \<Rightarrow>
                Inr ([result_response request_id (text_content (started_text tid))], w')))
         else if tool_name = JStr ''codex_check_result'' then
           (case as_dict arguments of
              Inl e \<Rightarrow> Inl e
            | Inr a \<Rightarrow>
           (let tid = dict_get a ''task_id''
            in if \<not> truthy tid
               then Inr ([error_response request_id (- 32602) ''task_id is required''], w)
               else (case tid of
                       JStr t \<Rightarrow>
                         (case check_task_status w t of
                            Inl e \<Rightarrow> Inl e
                          | Inr (status_info, w') \<Rightarrow>
                              Inr ([result_response request_id
                                      (text_content (status_text t status_info))], w'))
                     | _ \<Rightarrow> Inl TypeError)))
         else Inr ([error_response request_id (- 32601)
                      (''Unknown tool: '' @ py_str L tool_name)], w)))"

definition handle_request :: "library \<Rightarrow> world \<Rightarrow> json \<Rightarrow> error + (json list \<times> world)" where
  "handle_request L w request =
     (case as_dict request of
        Inl e \<Rightarrow> Inl e
      | Inr req \<Rightarrow>
     (let method = dict_get req ''method'';
          request_id = dict_get req ''id'';
          params = dict_get_default req ''params'' (JObj [])
      in if method = JStr ''initialize'' then
           Inr ([result_response request_id initialize_result], w)
         else if method = JStr ''tools/list'' then
           Inr ([result_response request_id tools_list_result], w)
         else if method = JStr ''tools/call'' then
           call_tool L w request_id params
         else Inr ([error_response request_id (- 32601)
                      (''Method not found: '' @ py_str L method)], w)))"


text \<open>Reading a response: its \<open>id\<close>, the code of its \<open>error\<close> entry when it has one,
  and the text of its result when it is a text result.\<close>

definition response_id :: "json \<Rightarrow> json option" where
  "response_id r = (case r of JObj d \<Rightarrow> map_of d ''id'' | _ \<Rightarrow> None)"

definition response_error_code :: "json \<Rightarrow> json option" where
  "response_error_code r =
     (case r of
        JObj d \<Rightarrow> (case map_of d ''error'' of
                     Some (JObj e) \<Rightarrow> map_of e ''code''
                   | _ \<Rightarrow> None)
      | _ \<Rightarrow> None)"

definition response_text :: "json \<Rightarrow> string option" where
  "response_text r =
     (case r of
        JObj d \<Rightarrow> (case map_of d ''result'' of
                     Some (JObj res) \<Rightarrow>
                       (case map_of res ''content'' of
                          Some (JArr [JObj c]) \<Rightarrow>
                            (case (map_of c ''type'', map_of c ''text'') of
                               (Some (JStr ty), Some (JStr t)) \<Rightarrow>
                                 (if ty = ''text'' then Some t else None)
                             | _ \<Rightarrow> None)
                        | _ \<Rightarrow> None)
                   | _ \<Rightarrow> None)
      | _ \<Rightarrow> None)"

definition response_result :: "json \<Rightarrow> json option" where
  "response_result r = (case r of JObj d \<Rightarrow> map_of d ''result'' | _ \<Rightarrow> None)"

section \<open>Worlds used in the statements\<close>

text \<open>
  The world after a check that found the task completed: the metadata record is
  written back with \<open>status = completed\<close> and \<open>completed_at\<close> the clock's reading
  number \<open>n\<close>, and the clock has been read twice more.
\<close>

definition completed_world :: "world \<Rightarrow> path \<Rightarrow> metadata \<Rightarrow> nat \<Rightarrow> world" where
  "completed_world w mf md n =
     w\<lparr>meta_files := (meta_files w)(mf \<mapsto> md\<lparr>status := ''completed'', completed_at := Some (clock w n)\<rparr>),
       ticks := n + 2\<rparr>"

text \<open>
  A world with one task, \<open>0a1b2c3d\<close>, launched at \<open>started\<close>, whose capture files are
  as given and whose clock reads \<open>now\<close>, \<open>now + 1\<close>, ... on successive calls. Its file
  system refuses a name of more than 255 bytes, and \<open>exists()\<close> passes the error on.
\<close>

definition utf8_length :: "string \<Rightarrow> nat" where
  "utf8_length name = sum_list (map (\<lambda>c. if of_char c < (128 :: nat) then 1 else 2) name)"

definition example_metadata :: "real \<Rightarrow> metadata" where
  "example_metadata started =
     \<lparr>task_id = ''0a1b2c3d'', pid = 4242, status = ''running'',
      command = ''codex exec hi'', started_at = started, completed_at = None\<rparr>"

definition example_world :: "real \<Rightarrow> capture option \<Rightarrow> capture option \<Rightarrow> real \<Rightarrow> world" where
  "example_world started out err now =
     \<lparr>meta_files = [[''tmp'', ''codex_tasks'', ''0a1b2c3d.meta''] \<mapsto> example_metadata started],
      capture_files =
        (\<lambda>p. if p = [''tmp'', ''codex_tasks'', ''0a1b2c3d.stdout''] then out
             else if p = [''tmp'', ''codex_tasks'', ''0a1b2c3d.stderr''] then err
             else None),
      stat_error =
        (\<lambda>p. if list_ex (\<lambda>name. 255 < utf8_length name) p
             then Some (OSError ''[Errno 36] File name too long'')
             else None),
      clock = (\<lambda>n. now + real n),
      ticks = 0,
      uuid4 = (\<lambda>n. 0x005d5d7e7249412a9bd912760476fd18),
      draws = 0,
      popen = (\<lambda>cmd. Inr 4242),
      run = (\<lambda>cmd timeout. TimeoutExpired)\<rparr>"

text \<open>
  A stand-in for the library: its \<open>json.loads\<close> knows one request line and rejects
  every other text, the empty one included, as not being JSON.
\<close>

definition example_library :: library where
  \<open>example_library =
     \<lparr>json_loads =
        (\<lambda>s. if s = ''{"jsonrpc": "2.0", "id": 7, "method": "tools/list"}''
             then Inr (JObj [(''jsonrpc'', JStr ''2.0''), (''id'', JNum 7),
                             (''method'', JStr ''tools/list'')])
             else Inl (JSONDecodeError ''Expecting value: line 1 column 1 (char 0)'')),
      py_repr = (\<lambda>x. ''?'')\<rparr>\<close>

text \<open>A \<open>tools/call\<close> request with the given id, tool name and arguments.\<close>

definition tool_call :: "json \<Rightarrow> string \<Rightarrow> (string \<times> json) list \<Rightarrow> json" where
  "tool_call request_id tool arguments =
     JObj [(''jsonrpc'', JStr ''2.0''), (''id'', request_id), (''method'', JStr ''tools/call''),
           (''params'', JObj [(''name'', JStr tool), (''arguments'', JObj arguments)])]"

section \<open>The extractor's policy\<close>

subsection \<open>The lazy group\<close>

lemma lazy_rest_prefix: "\<exists>rest. cs = lazy_rest cs @ rest \<and> (rest = [] \<or> prefix trailing_marker rest)"
  by (induction cs) auto

lemma lazy_rest_minimal: "k < length (lazy_rest cs) \<Longrightarrow> \<not> prefix trailing_marker (drop k cs)"
proof (induction cs arbitrary: k)
  case Nil
  then show ?case by simp
next
  case (Cons c cs)
  show ?case
  proof (cases "prefix trailing_marker (c # cs)")
    case True
    with Cons.prems show ?thesis by simp
  next
    case False
    show ?thesis
    proof (cases k)
      case 0
      with False show ?thesis by simp
    next
      case (Suc k')
      with Cons.prems False have "k' < length (lazy_rest cs)" by simp
      from Cons.IH [OF this] Suc show ?thesis by simp
    qed
  qed
qed

lemma lazy_rest_unique:
  "cs = g @ rest \<Longrightarrow> (rest = [] \<or> prefix trailing_marker rest) \<Longrightarrow>
   (\<forall>k<length g. \<not> prefix trailing_marker (drop k cs)) \<Longrightarrow> lazy_rest cs = g"
proof (induction cs arbitrary: g)
  case Nil
  then show ?case by simp
next
  case (Cons c cs)
  show ?case
  proof (cases g)
    case Nil
    with Cons.prems have "prefix trailing_marker (c # cs)"
      by (auto simp: trailing_marker_def)
    with Nil show ?thesis by simp
  next
    case (Cons a g')
    with Cons.prems have np: "\<not> prefix trailing_marker (c # cs)" by force
    from Cons Cons.prems have eq: "cs = g' @ rest" and ac: "a = c" by auto
    have "\<forall>k<length g'. \<not> prefix trailing_marker (drop k cs)"
    proof (intro allI impI)
      fix k assume "k < length g'"
      then have "Suc k < length g" using Cons by simp
      with Cons.prems(3) have "\<not> prefix trailing_marker (drop (Suc k) (c # cs))" by blast
      then show "\<not> prefix trailing_marker (drop k cs)" by simp
    qed
    from Cons.IH [OF eq Cons.prems(2) this] np ac Cons show ?thesis by simp
  qed
qed

subsection \<open>The search and the first segment\<close>

lemma match_here_iff:
  "match_here s = Some seg \<longleftrightarrow>
     (\<exists>rest. s = leading_marker @ seg @ rest \<and> seg \<noteq> [] \<and>
        (\<forall>k. 0 < k \<and> k < length seg \<longrightarrow> \<not> prefix trailing_marker (drop k (seg @ rest))) \<and>
        (rest = [] \<or> prefix trailing_marker rest))"
proof
  assume m: "match_here s = Some seg"
  then have p: "prefix leading_marker s"
    by (auto simp: match_here_def split: if_splits)
  then obtain t where s: "s = leading_marker @ t" by (auto simp: prefix_def)
  with m obtain c cs where t: "t = c # cs" and seg: "seg = c # lazy_rest cs"
    by (auto simp: match_here_def split: list.splits)
  from lazy_rest_prefix [of cs] obtain rest where
    r: "cs = lazy_rest cs @ rest" "rest = [] \<or> prefix trailing_marker rest" by blast
  have "\<forall>k. 0 < k \<and> k < length seg \<longrightarrow> \<not> prefix trailing_marker (drop k (seg @ rest))"
  proof (intro allI impI)
    fix k assume k: "0 < k \<and> k < length seg"
    then obtain k' where k': "k = Suc k'" by (cases k) auto
    with k seg have "k' < length (lazy_rest cs)" by simp
    from lazy_rest_minimal [OF this] r(1) k' seg
    show "\<not> prefix trailing_marker (drop k (seg @ rest))" by simp
  qed
  with s t seg r show "\<exists>rest. s = leading_marker @ seg @ rest \<and> seg \<noteq> [] \<and>
        (\<forall>k. 0 < k \<and> k < length seg \<longrightarrow> \<not> prefix trailing_marker (drop k (seg @ rest))) \<and>
        (rest = [] \<or> prefix trailing_marker rest)"
    by (intro exI [of _ rest]) auto
next
  assume "\<exists>rest. s = leading_marker @ seg @ rest \<and> seg \<noteq> [] \<and>
        (\<forall>k. 0 < k \<and> k < length seg \<longrightarrow> \<not> prefix trailing_marker (drop k (seg @ rest))) \<and>
        (rest = [] \<or> prefix trailing_marker rest)"
  then obtain rest where s: "s = leading_marker @ seg @ rest" and ne: "seg \<noteq> []"
    and mn: "\<forall>k. 0 < k \<and> k < length seg \<longrightarrow> \<not> prefix trailing_marker (drop k (seg @ rest))"
    and r: "rest = [] \<or> prefix trailing_marker rest" by blast
  from ne obtain c g where seg: "seg = c # g" by (cases seg) auto
  have "\<forall>k<length g. \<not> prefix trailing_marker (drop k (g @ rest))"
  proof (intro allI impI)
    fix k assume "k < length g"
    then have "0 < Suc k \<and> Suc k < length seg" using seg by simp
    with mn have "\<not> prefix trailing_marker (drop (Suc k) (seg @ rest))" by blast
    with seg show "\<not> prefix trailing_marker (drop k (g @ rest))" by simp
  qed
  from lazy_rest_unique [OF refl r this] have "lazy_rest (g @ rest) = g" .
  with s seg show "match_here s = Some seg"
    by (simp add: match_here_def)
qed

lemma match_here_None_Nil: "match_here [] = None"
  by (simp add: match_here_def leading_marker_def)

lemma first_segment_Nil: "\<not> first_segment [] seg"
  by (simp add: first_segment_def leading_marker_def)

lemma first_segment_here:
  assumes "match_here s = Some g"
  shows "first_segment s seg \<longleftrightarrow> seg = g"
proof
  assume "seg = g"
  with assms have "match_here s = Some seg" by simp
  then obtain rest where "s = leading_marker @ seg @ rest" "seg \<noteq> []"
     "\<forall>k. 0 < k \<and> k < length seg \<longrightarrow> \<not> prefix trailing_marker (drop k (seg @ rest))"
     "rest = [] \<or> prefix trailing_marker rest"
    unfolding match_here_iff by blast
  then show "first_segment s seg"
    unfolding first_segment_def by (intro exI [of _ "[]"] exI [of _ rest]) simp
next
  assume "first_segment s seg"
  then obtain pre rest where s: "s = pre @ leading_marker @ seg @ rest"
    and fst: "\<forall>j<length pre. \<not> prefix leading_marker (drop j s)"
    and rest: "seg \<noteq> []"
     "\<forall>k. 0 < k \<and> k < length seg \<longrightarrow> \<not> prefix trailing_marker (drop k (seg @ rest))"
     "rest = [] \<or> prefix trailing_marker rest"
    unfolding first_segment_def by blast
  from assms have p: "prefix leading_marker s"
    by (auto simp: match_here_def split: if_splits)
  have "pre = []"
  proof (rule ccontr)
    assume "pre \<noteq> []"
    then have "0 < length pre" by simp
    with fst have "\<not> prefix leading_marker (drop 0 s)" by blast
    with p show False by simp
  qed
  with s rest have "match_here s = Some seg"
    unfolding match_here_iff by auto
  with assms show "seg = g" by simp
qed

lemma first_segment_skip:
  assumes "match_here (c # cs) = None"
  shows "first_segment (c # cs) seg \<longleftrightarrow> first_segment cs seg"
proof
  assume "first_segment (c # cs) seg"
  then obtain pre rest where s: "c # cs = pre @ leading_marker @ seg @ rest"
    and fst: "\<forall>j<length pre. \<not> prefix leading_marker (drop j (c # cs))"
    and rest: "seg \<noteq> []"
     "\<forall>k. 0 < k \<and> k < length seg \<longrightarrow> \<not> prefix trailing_marker (drop k (seg @ rest))"
     "rest = [] \<or> prefix trailing_marker rest"
    unfolding first_segment_def by blast
  have "pre \<noteq> []"
  proof
    assume "pre = []"
    with s rest have "match_here (c # cs) = Some seg"
      unfolding match_here_iff by auto
    with assms show False by simp
  qed
  then obtain pre' where pre: "pre = c # pre'" using s by (cases pre) auto
  with s have cs: "cs = pre' @ leading_marker @ seg @ rest" by simp
  have "\<forall>j<length pre'. \<not> prefix leading_marker (drop j cs)"
  proof (intro allI impI)
    fix j assume "j < length pre'"
    with pre have "Suc j < length pre" by simp
    with fst have "\<not> prefix leading_marker (drop (Suc j) (c # cs))" by blast
    then show "\<not> prefix leading_marker (drop j cs)" by simp
  qed
  with cs rest show "first_segment cs seg"
    unfolding first_segment_def by blast
next
  assume "first_segment cs seg"
  then obtain pre rest where s: "cs = pre @ leading_marker @ seg @ rest"
    and fst: "\<forall>j<length pre. \<not> prefix leading_marker (drop j cs)"
    and rest: "seg \<noteq> []"
     "\<forall>k. 0 < k \<and> k < length seg \<longrightarrow> \<not> prefix trailing_marker (drop k (seg @ rest))"
     "rest = [] \<or> prefix trailing_marker rest"
    unfolding first_segment_def by blast
  have np: "\<not> prefix leading_marker (c # cs)"
  proof
    assume p: "prefix leading_marker (c # cs)"
    then obtain t where t: "c # cs = leading_marker @ t" by (auto simp: prefix_def)
    with assms p have "t = []"
      by (auto simp: match_here_def split: list.splits)
    with t have "length cs < length leading_marker"
      by (metis length_Cons lessI append_Nil2)
    with s show False by simp
  qed
  have "\<forall>j<length (c # pre). \<not> prefix leading_marker (drop j (c # cs))"
  proof (intro allI impI)
    fix j assume j: "j < length (c # pre)"
    show "\<not> prefix leading_marker (drop j (c # cs))"
    proof (cases j)
      case 0
      with np show ?thesis by simp
    next
      case (Suc j')
      with j fst show ?thesis by simp
    qed
  qed
  moreover from s have "c # cs = (c # pre) @ leading_marker @ seg @ rest" by simp
  ultimately show "first_segment (c # cs) seg"
    using rest unfolding first_segment_def by blast
qed

lemma re_search_iff: "re_search s = Some seg \<longleftrightarrow> first_segment s seg"
proof (induction s)
  case Nil
  show ?case by (simp add: match_here_None_Nil first_segment_Nil)
next
  case (Cons c cs)
  show ?case
  proof (cases "match_here (c # cs)")
    case None
    with Cons first_segment_skip [OF None] show ?thesis by simp
  next
    case (Some g)
    with first_segment_here [OF Some] show ?thesis by auto
  qed
qed

subsection \<open>Claim C1\<close>

lemma re_search_None_iff: "re_search s = None \<longleftrightarrow> (\<forall>seg. \<not> first_segment s seg)"
  using re_search_iff [of s] by (cases "re_search s") auto

lemma marker_count_pos:
  assumes "s = pre @ leading_marker @ post"
  shows "0 < marker_count s"
proof -
  have l: "length pre < length s" unfolding assms by (simp add: leading_marker_def)
  have "drop (length pre) s = leading_marker @ post" unfolding assms by simp
  then have p: "prefix leading_marker (drop (length pre) s)" by simp
  from l have "length pre \<in> set [0..<length s]" by simp
  with p have "length pre \<in> set (filter (\<lambda>i. prefix leading_marker (drop i s)) [0..<length s])"
    by simp
  then have "0 < length (filter (\<lambda>i. prefix leading_marker (drop i s)) [0..<length s])"
    by (rule length_pos_if_in_set)
  then show ?thesis by (simp only: marker_count_def)
qed

lemma no_marker_no_segment:
  assumes "marker_count s = 0"
  shows "\<not> first_segment s seg"
proof
  assume "first_segment s seg"
  then obtain pre rest where "s = pre @ leading_marker @ seg @ rest"
    unfolding first_segment_def by blast
  from marker_count_pos [OF this] assms show False by simp
qed

text \<open>
  C1 (amended). The extractor returns the trimmed stdout when that is not empty.
  Otherwise, for a stderr that holds the leading marker \<^verbatim>\<open>codex\n\<close> at most once: when
  the marker is there and a character follows it, the segment starts right after the
  marker, takes that character whatever it is, and ends before the first
  \<^verbatim>\<open>tokens used\<close> that begins after that character, or at the end of stderr when there
  is none; the trimmed segment is returned when it is not empty. When the marker is
  not there, when nothing follows it, or when the segment trims to nothing, the result
  is the literal \<^verbatim>\<open>No output from Codex\<close>. Nothing is stated for a stderr that holds
  the leading marker more than once.
\<close>

theorem extract_result_policy:
  "(strip stdout \<noteq> [] \<longrightarrow> extract_result_from_codex_output stdout stderr = strip stdout) \<and>
   (strip stdout = [] \<and> marker_count stderr \<le> 1 \<longrightarrow>
      (\<forall>seg. first_segment stderr seg \<and> strip seg \<noteq> [] \<longrightarrow>
         extract_result_from_codex_output stdout stderr = strip seg) \<and>
      ((\<forall>seg. first_segment stderr seg \<longrightarrow> strip seg = []) \<longrightarrow>
         extract_result_from_codex_output stdout stderr = ''No output from Codex'') \<and>
      (marker_count stderr = 0 \<longrightarrow>
         extract_result_from_codex_output stdout stderr = ''No output from Codex''))"
proof -
  have a: "extract_result_from_codex_output stdout stderr = strip stdout"
    if "strip stdout \<noteq> []"
    using that by (simp add: extract_result_from_codex_output_def)
  have b: "extract_result_from_codex_output stdout stderr = strip seg"
    if e: "strip stdout = []" and f: "first_segment stderr seg" and ne: "strip seg \<noteq> []" for seg
  proof -
    from f have s: "re_search stderr = Some seg" by (simp add: re_search_iff)
    then have "stderr \<noteq> []" by (auto simp: match_here_None_Nil)
    with e s ne show ?thesis by (simp add: extract_result_from_codex_output_def)
  qed
  have c: "extract_result_from_codex_output stdout stderr = ''No output from Codex''"
    if e: "strip stdout = []" and n: "\<forall>seg. first_segment stderr seg \<longrightarrow> strip seg = []"
  proof (cases "re_search stderr")
    case None
    with e show ?thesis by (simp add: extract_result_from_codex_output_def)
  next
    case (Some g)
    then have "first_segment stderr g" by (simp add: re_search_iff)
    with n have "strip g = []" by blast
    with e Some show ?thesis by (simp add: extract_result_from_codex_output_def)
  qed
  have d: "extract_result_from_codex_output stdout stderr = ''No output from Codex''"
    if e: "strip stdout = []" and z: "marker_count stderr = 0"
    using c [OF e] no_marker_no_segment [OF z] by blast
  from a b c d show ?thesis by blast
qed

lemmas text_eval = strip_def isspace_def match_here_def leading_marker_def trailing_marker_def

text \<open>The branches of C1 on concrete captures: stdout wins; the segment of stderr is
  carved out; a trailing marker right after the leading one does not end the segment;
  nothing is found.\<close>

theorem extract_result_policy_witness:
  "strip ''hello '' \<noteq> [] \<and>
   extract_result_from_codex_output ''hello '' ''codex\<newline>noise'' = ''hello'' \<and>
   strip '' '' = [] \<and>
   marker_count ''log\<newline>codex\<newline> hi tokens used 12'' = 1 \<and>
   extract_result_from_codex_output '' '' ''log\<newline>codex\<newline> hi tokens used 12'' = ''hi'' \<and>
   marker_count ''codex\<newline>tokens used: 5'' = 1 \<and>
   extract_result_from_codex_output '' '' ''codex\<newline>tokens used: 5'' = ''tokens used: 5'' \<and>
   marker_count ''log\<newline>codex\<newline>  tokens used 12'' = 1 \<and>
   extract_result_from_codex_output '' '' ''log\<newline>codex\<newline>  tokens used 12''
     = ''No output from Codex'' \<and>
   marker_count ''no marker here'' = 0 \<and>
   extract_result_from_codex_output '' '' ''no marker here'' = ''No output from Codex''"
proof -
  let ?e1 = "''log\<newline>codex\<newline> hi tokens used 12''"
  let ?e2 = "''codex\<newline>tokens used: 5''"
  let ?e3 = "''log\<newline>codex\<newline>  tokens used 12''"
  let ?e4 = "''no marker here''"
  have h1: "strip ''hello '' \<noteq> []" by (simp add: text_eval)
  have h2: "strip '' '' = []" by (simp add: text_eval)
  have m1: "marker_count ?e1 = 1" by (simp add: marker_count_def leading_marker_def upt_rec)
  have m2: "marker_count ?e2 = 1" by (simp add: marker_count_def leading_marker_def upt_rec)
  have m3: "marker_count ?e3 = 1" by (simp add: marker_count_def leading_marker_def upt_rec)
  have m4: "marker_count ?e4 = 0" by (simp add: marker_count_def leading_marker_def upt_rec)
  have "re_search ?e1 = Some '' hi ''" by (simp add: text_eval)
  then have f1: "first_segment ?e1 '' hi ''" by (rule re_search_iff [THEN iffD1])
  have g1: "strip '' hi '' = ''hi''" by (simp add: text_eval)
  have "re_search ?e2 = Some ''tokens used: 5''" by (simp add: text_eval)
  then have f2: "first_segment ?e2 ''tokens used: 5''" by (rule re_search_iff [THEN iffD1])
  have g2: "strip ''tokens used: 5'' = ''tokens used: 5''" by (simp add: text_eval)
  have r3: "re_search ?e3 = Some ''  ''" by (simp add: text_eval)
  have f3: "\<forall>seg. first_segment ?e3 seg \<longrightarrow> strip seg = []"
  proof (intro allI impI)
    fix seg assume "first_segment ?e3 seg"
    then have "re_search ?e3 = Some seg" by (rule re_search_iff [THEN iffD2])
    with r3 have "seg = ''  ''" by simp
    then show "strip seg = []" by (simp add: text_eval)
  qed
  have b1: "strip '' '' = [] \<and> marker_count ?e1 \<le> 1" using h2 m1 by simp
  have b2: "strip '' '' = [] \<and> marker_count ?e2 \<le> 1" using h2 m2 by simp
  have b3: "strip '' '' = [] \<and> marker_count ?e3 \<le> 1" using h2 m3 by simp
  have b4: "strip '' '' = [] \<and> marker_count ?e4 \<le> 1" using h2 m4 by simp
  note t0 = extract_result_policy [of "''hello ''" "''codex\<newline>noise''", THEN conjunct1, THEN mp, OF h1]
  note t1 = extract_result_policy [of "'' ''" ?e1, THEN conjunct2, THEN mp, OF b1, THEN conjunct1]
  note t2 = extract_result_policy [of "'' ''" ?e2, THEN conjunct2, THEN mp, OF b2, THEN conjunct1]
  note t3 = extract_result_policy [of "'' ''" ?e3, THEN conjunct2, THEN mp, OF b3,
      THEN conjunct2, THEN conjunct1, THEN mp, OF f3]
  note t4 = extract_result_policy [of "'' ''" ?e4, THEN conjunct2, THEN mp, OF b4,
      THEN conjunct2, THEN conjunct2, THEN mp, OF m4]
  have n1: "first_segment ?e1 '' hi '' \<and> strip '' hi '' \<noteq> []" using f1 g1 by simp
  have n2: "first_segment ?e2 ''tokens used: 5'' \<and> strip ''tokens used: 5'' \<noteq> []"
    using f2 g2 by simp
  have h6: "strip ''hello '' = ''hello''" by (simp add: text_eval)
  have c0: "extract_result_from_codex_output ''hello '' ''codex\<newline>noise'' = ''hello''"
    using t0 h6 by simp
  have c1: "extract_result_from_codex_output '' '' ?e1 = ''hi''"
    using t1 [THEN spec, THEN mp, OF n1] g1 by simp
  have c2: "extract_result_from_codex_output '' '' ?e2 = ''tokens used: 5''"
    using t2 [THEN spec, THEN mp, OF n2] g2 by simp
  show ?thesis
    using h1 h2 m1 m2 m3 m4 c0 c1 c2 t3 t4 by (intro conjI)
qed

text \<open>
  C1 as stated fails: this stderr holds the leading marker and no trailing marker
  phrase at all, so the claim gives the fallback text, and the extractor returns
  the segment up to the end of stderr.
\<close>

theorem extract_result_counterexample:
  "strip [] = [] \<and> \<not> sublist trailing_marker ''codex\<newline>hello'' \<and>
   extract_result_from_codex_output [] ''codex\<newline>hello'' = ''hello'' \<and>
   extract_result_from_codex_output [] ''codex\<newline>hello'' \<noteq> ''No output from Codex''"
proof -
  have "\<not> sublist trailing_marker ''codex\<newline>hello''"
    unfolding trailing_marker_def by code_simp
  moreover have "extract_result_from_codex_output [] ''codex\<newline>hello'' = ''hello''"
    by (simp add: extract_result_from_codex_output_def text_eval)
  ultimately show ?thesis by (simp add: strip_def)
qed

section \<open>The liveness inspector's checks\<close>

lemma with_suffix_other:
  assumes "with_suffix p sfx = Inr q"
  shows "\<exists>q'. with_suffix p sfx' = Inr q'"
proof -
  from assms have "p \<noteq> []" by (auto simp: with_suffix_def split: if_splits)
  then show ?thesis by (simp add: with_suffix_def Let_def)
qed

lemma check_task_status_no_capture:
  assumes "with_suffix (path_join TASK_DIR tid) ''.meta'' = Inr mf"
    and "with_suffix (path_join TASK_DIR tid) ''.stdout'' = Inr so"
    and "with_suffix (path_join TASK_DIR tid) ''.stderr'' = Inr se"
    and "meta_files w mf = Some md"
    and "capture_files w so = None" and "capture_files w se = None"
  shows "check_task_status w tid =
           Inr (Completed tid (extract_result_from_codex_output [] [])
                  (py_int (clock w (ticks w) - started_at md)),
                completed_world w mf md (ticks w))"
  using assms
  by (simp add: check_task_status_def Let_def time_time_def read_text_def completed_world_def)

lemma check_task_status_running:
  assumes "with_suffix (path_join TASK_DIR tid) ''.meta'' = Inr mf"
    and "with_suffix (path_join TASK_DIR tid) ''.stdout'' = Inr so"
    and "with_suffix (path_join TASK_DIR tid) ''.stderr'' = Inr se"
    and "meta_files w mf = Some md"
    and "capture_files w so \<noteq> None \<or> capture_files w se \<noteq> None"
    and "clock w (ticks w) - latest_mtime (capture_files w so) (capture_files w se) < 10"
  shows "check_task_status w tid =
           Inr (Running tid (py_int (clock w (Suc (ticks w)) - started_at md)) (command md),
                w\<lparr>ticks := ticks w + 2\<rparr>)"
  using assms
  by (auto simp add: check_task_status_def Let_def time_time_def)

lemma check_task_status_idle:
  assumes "with_suffix (path_join TASK_DIR tid) ''.meta'' = Inr mf"
    and "with_suffix (path_join TASK_DIR tid) ''.stdout'' = Inr so"
    and "with_suffix (path_join TASK_DIR tid) ''.stderr'' = Inr se"
    and "meta_files w mf = Some md"
    and "capture_files w so \<noteq> None \<or> capture_files w se \<noteq> None"
    and "\<not> clock w (ticks w) - latest_mtime (capture_files w so) (capture_files w se) < 10"
  shows "check_task_status w tid =
           Inr (Completed tid
                  (extract_result_from_codex_output (read_text (capture_files w so))
                     (read_text (capture_files w se)))
                  (py_int (clock w (Suc (ticks w)) - started_at md)),
                completed_world w mf md (Suc (ticks w)))"
  using assms
  by (auto simp add: check_task_status_def Let_def time_time_def completed_world_def)

subsection \<open>Claim C2\<close>


lemmas path_eval = path_join_def path_parts_def with_suffix_def path_suffix_def TASK_DIR_def Let_def

lemma example_paths:
  "with_suffix (path_join TASK_DIR ''0a1b2c3d'') ''.meta'' = Inr [''tmp'', ''codex_tasks'', ''0a1b2c3d.meta'']"
  "with_suffix (path_join TASK_DIR ''0a1b2c3d'') ''.stdout'' = Inr [''tmp'', ''codex_tasks'', ''0a1b2c3d.stdout'']"
  "with_suffix (path_join TASK_DIR ''0a1b2c3d'') ''.stderr'' = Inr [''tmp'', ''codex_tasks'', ''0a1b2c3d.stderr'']"
  by (simp_all add: path_eval)




lemma example_world_simps:
  "meta_files (example_world started out err now) [''tmp'', ''codex_tasks'', ''0a1b2c3d.meta'']
     = Some (example_metadata started)"
  "capture_files (example_world started out err now) [''tmp'', ''codex_tasks'', ''0a1b2c3d.stdout''] = out"
  "capture_files (example_world started out err now) [''tmp'', ''codex_tasks'', ''0a1b2c3d.stderr''] = err"
  "clock (example_world started out err now) n = now + real n"
  "ticks (example_world started out err now) = 0"
  by (simp_all add: example_world_def)


subsection \<open>Claim C10\<close>

lemma extract_nothing: "extract_result_from_codex_output [] [] = ''No output from Codex''"
  by (simp add: extract_result_from_codex_output_def strip_def)

text \<open>
  C10. When the metadata artifact of a task exists and neither capture artifact does,
  the check reads no modification time, classifies the task \<open>completed\<close>, reads both
  missing artifacts as empty text and reports the result \<^verbatim>\<open>No output from Codex\<close>.
\<close>

theorem no_capture_completed:
  assumes "with_suffix (path_join TASK_DIR tid) ''.meta'' = Inr mf"
    and "with_suffix (path_join TASK_DIR tid) ''.stdout'' = Inr so"
    and "with_suffix (path_join TASK_DIR tid) ''.stderr'' = Inr se"
    and "meta_files w mf = Some md"
    and "capture_files w so = None" and "capture_files w se = None"
  shows "\<exists>w'. check_task_status w tid =
                Inr (Completed tid ''No output from Codex''
                       (py_int (clock w (ticks w) - started_at md)), w') \<and>
              status_of (Completed tid ''No output from Codex''
                           (py_int (clock w (ticks w) - started_at md))) = ''completed'' \<and>
              read_text (capture_files w so) = [] \<and> read_text (capture_files w se) = []"
  using check_task_status_no_capture [OF assms] assms(5,6)
  by (simp add: extract_nothing read_text_def)

text \<open>C10 on a task launched at 1000 and checked at 1020 with no capture file.\<close>

theorem no_capture_completed_witness:
  "map_sum id fst (check_task_status (example_world 1000 None None 1020) ''0a1b2c3d'')
     = Inr (Completed ''0a1b2c3d'' ''No output from Codex'' 20)"
proof -
  let ?w = "example_world 1000 None None 1020"
  from no_capture_completed [OF example_paths example_world_simps(1) example_world_simps(2,3)]
  obtain w' where
    "check_task_status ?w ''0a1b2c3d'' =
       Inr (Completed ''0a1b2c3d'' ''No output from Codex''
              (py_int (clock ?w (ticks ?w) - started_at (example_metadata 1000))), w')"
    by blast
  then show ?thesis
    by (simp add: example_world_simps example_metadata_def py_int_def)
qed


subsection \<open>Claim C4\<close>

lemma py_int_mono: "x \<le> y \<Longrightarrow> py_int x \<le> py_int y"
  unfolding py_int_def
  by (smt (verit, best) ceiling_mono floor_mono floor_le_ceiling ceiling_le_zero zero_le_floor
      order_trans)

lemma py_int_grows: "0 \<le> x \<Longrightarrow> x + 1 \<le> y \<Longrightarrow> py_int x < py_int y"
proof -
  assume a: "0 \<le> x" "x + 1 \<le> y"
  then have "\<lfloor>x\<rfloor> + 1 \<le> \<lfloor>y\<rfloor>" by (metis floor_mono floor_add_int of_int_1)
  with a show ?thesis by (simp add: py_int_def)
qed

lemma completed_world_simps:
  "meta_files (completed_world w mf md n) mf =
     Some (md\<lparr>status := ''completed'', completed_at := Some (clock w n)\<rparr>)"
  "capture_files (completed_world w mf md n) = capture_files w"
  "clock (completed_world w mf md n) = clock w"
  "ticks (completed_world w mf md n) = n + 2"
  by (simp_all add: completed_world_def)

lemma completed_check:
  assumes "with_suffix (path_join TASK_DIR tid) ''.meta'' = Inr mf"
    and "with_suffix (path_join TASK_DIR tid) ''.stdout'' = Inr so"
    and "with_suffix (path_join TASK_DIR tid) ''.stderr'' = Inr se"
    and "meta_files w mf = Some md"
    and "check_task_status w tid = Inr (si, w')"
    and "status_of si = ''completed''"
  shows "\<exists>n r. (n = ticks w \<or> n = Suc (ticks w)) \<and>
           si = Completed tid r (py_int (clock w n - started_at md)) \<and>
           w' = completed_world w mf md n"
proof (cases "capture_files w so = None \<and> capture_files w se = None")
  case True
  then have "capture_files w so = None" "capture_files w se = None" by simp_all
  from check_task_status_no_capture [OF assms(1-4) this] assms(5)
  show ?thesis by auto
next
  case False
  then have ex: "capture_files w so \<noteq> None \<or> capture_files w se \<noteq> None" by simp
  show ?thesis
  proof (cases "clock w (ticks w) - latest_mtime (capture_files w so) (capture_files w se) < 10")
    case True
    from check_task_status_running [OF assms(1-4) ex True] assms(5,6)
    show ?thesis by auto
  next
    case False
    from check_task_status_idle [OF assms(1-4) ex False] assms(5)
    show ?thesis by auto
  qed
qed

text \<open>
  C4. A check that classifies the task \<open>completed\<close> writes the metadata back with
  \<open>completed_at\<close> the clock reading of that check (reading \<open>n\<close>), whatever the record
  held before, and reports as elapsed seconds that reading minus \<open>started_at\<close>, cut to
  whole seconds by \<open>int\<close>. A later check that classifies it \<open>completed\<close> again does
  the same with a later reading \<open>n2\<close>: the reported seconds do not decrease when the
  clock does not go back, and increase when the later reading is at least a second
  later (the task launched before the first check).
\<close>

theorem completed_at_rewritten:
  assumes "with_suffix (path_join TASK_DIR tid) ''.meta'' = Inr mf"
    and "with_suffix (path_join TASK_DIR tid) ''.stdout'' = Inr so"
    and "with_suffix (path_join TASK_DIR tid) ''.stderr'' = Inr se"
    and "meta_files w mf = Some md"
    and "check_task_status w tid = Inr (si, w')"
    and "status_of si = ''completed''"
  shows "\<exists>n r. (n = ticks w \<or> n = Suc (ticks w)) \<and>
           si = Completed tid r (py_int (clock w n - started_at md)) \<and>
           meta_files w' mf = Some (md\<lparr>status := ''completed'', completed_at := Some (clock w n)\<rparr>) \<and>
           (\<forall>si2 w2. check_task_status w' tid = Inr (si2, w2) \<and> status_of si2 = ''completed'' \<longrightarrow>
              (\<exists>n2 r2. n < n2 \<and>
                 si2 = Completed tid r2 (py_int (clock w n2 - started_at md)) \<and>
                 meta_files w2 mf =
                   Some (md\<lparr>status := ''completed'', completed_at := Some (clock w n2)\<rparr>) \<and>
                 (clock w n \<le> clock w n2 \<longrightarrow>
                    py_int (clock w n - started_at md) \<le> py_int (clock w n2 - started_at md)) \<and>
                 (started_at md \<le> clock w n \<and> clock w n + 1 \<le> clock w n2 \<longrightarrow>
                    py_int (clock w n - started_at md) < py_int (clock w n2 - started_at md))))"
proof -
  from completed_check [OF assms] obtain n r where
    n: "n = ticks w \<or> n = Suc (ticks w)" and
    si: "si = Completed tid r (py_int (clock w n - started_at md))" and
    w': "w' = completed_world w mf md n" by blast
  let ?md' = "md\<lparr>status := ''completed'', completed_at := Some (clock w n)\<rparr>"
  have m': "meta_files w' mf = Some ?md'" by (simp add: w' completed_world_simps)
  have again: "\<exists>n2 r2. n < n2 \<and>
                 si2 = Completed tid r2 (py_int (clock w n2 - started_at md)) \<and>
                 meta_files w2 mf =
                   Some (md\<lparr>status := ''completed'', completed_at := Some (clock w n2)\<rparr>) \<and>
                 (clock w n \<le> clock w n2 \<longrightarrow>
                    py_int (clock w n - started_at md) \<le> py_int (clock w n2 - started_at md)) \<and>
                 (started_at md \<le> clock w n \<and> clock w n + 1 \<le> clock w n2 \<longrightarrow>
                    py_int (clock w n - started_at md) < py_int (clock w n2 - started_at md))"
    if c2: "check_task_status w' tid = Inr (si2, w2)" and s2: "status_of si2 = ''completed''"
    for si2 w2
  proof -
    from completed_check [OF assms(1-3) m' c2 s2] obtain n2 r2 where
      n2: "n2 = ticks w' \<or> n2 = Suc (ticks w')" and
      si2: "si2 = Completed tid r2 (py_int (clock w' n2 - started_at ?md'))" and
      w2: "w2 = completed_world w' mf ?md' n2" by blast
    have lt: "n < n2" using n2 by (auto simp: w' completed_world_simps)
    have ck: "clock w' = clock w" by (simp add: w' completed_world_simps)
    have m2: "meta_files w2 mf =
                Some (md\<lparr>status := ''completed'', completed_at := Some (clock w n2)\<rparr>)"
      by (simp add: w2 completed_world_simps ck)
    have mono: "clock w n \<le> clock w n2 \<longrightarrow>
                  py_int (clock w n - started_at md) \<le> py_int (clock w n2 - started_at md)"
      by (simp add: py_int_mono)
    have strict: "started_at md \<le> clock w n \<and> clock w n + 1 \<le> clock w n2 \<longrightarrow>
                    py_int (clock w n - started_at md) < py_int (clock w n2 - started_at md)"
      by (auto intro!: py_int_grows)
    from lt si2 m2 mono strict show ?thesis by (auto simp: ck)
  qed
  from n si m' again show ?thesis by blast
qed

text \<open>C4 on a task launched at 1000 whose output stopped at 1005, checked twice from
  1020 on: 21 seconds, then 24.\<close>

theorem completed_at_rewritten_witness:
  "(case check_task_status
           (example_world 1000 (Some \<lparr>content = ''done'', mtime = 1005\<rparr>) None 1020) ''0a1b2c3d'' of
      Inl e \<Rightarrow> False
    | Inr (si, w1) \<Rightarrow>
        si = Completed ''0a1b2c3d'' ''done'' 21 \<and>
        map_option completed_at (meta_files w1 [''tmp'', ''codex_tasks'', ''0a1b2c3d.meta''])
          = Some (Some 1021) \<and>
        (case check_task_status w1 ''0a1b2c3d'' of
           Inl e \<Rightarrow> False
         | Inr (si2, w2) \<Rightarrow>
             si2 = Completed ''0a1b2c3d'' ''done'' 24 \<and>
             map_option completed_at (meta_files w2 [''tmp'', ''codex_tasks'', ''0a1b2c3d.meta''])
               = Some (Some 1024)))"
proof -
  let ?out = "Some \<lparr>content = ''done'', mtime = 1005\<rparr>"
  let ?w = "example_world 1000 ?out None 1020"
  let ?mf = "[''tmp'', ''codex_tasks'', ''0a1b2c3d.meta'']"
  let ?so = "[''tmp'', ''codex_tasks'', ''0a1b2c3d.stdout'']"
  let ?se = "[''tmp'', ''codex_tasks'', ''0a1b2c3d.stderr'']"
  let ?md = "example_metadata 1000"
  have res: "extract_result_from_codex_output ''done'' [] = ''done''"
    by (simp add: extract_result_from_codex_output_def text_eval)
  have ex: "capture_files ?w ?so \<noteq> None \<or> capture_files ?w ?se \<noteq> None"
    by (simp add: example_world_simps)
  have idle: "\<not> clock ?w (ticks ?w) - latest_mtime (capture_files ?w ?so) (capture_files ?w ?se) < 10"
    by (simp add: example_world_simps latest_mtime_def)
  let ?w1 = "completed_world ?w ?mf ?md (Suc (ticks ?w))"
  have c1: "check_task_status ?w ''0a1b2c3d'' = Inr (Completed ''0a1b2c3d'' ''done'' 21, ?w1)"
    using check_task_status_idle [OF example_paths example_world_simps(1) ex idle]
    by (simp add: example_world_simps read_text_def res example_metadata_def py_int_def)
  have s1: "status_of (Completed ''0a1b2c3d'' ''done'' 21) = ''completed''" by simp
  from completed_at_rewritten [OF example_paths example_world_simps(1) c1 s1]
  obtain n r where n: "n = ticks ?w \<or> n = Suc (ticks ?w)"
    and si: "Completed ''0a1b2c3d'' ''done'' 21 =
               Completed ''0a1b2c3d'' r (py_int (clock ?w n - started_at ?md))"
    and m1: "meta_files ?w1 ?mf = Some (?md\<lparr>status := ''completed'', completed_at := Some (clock ?w n)\<rparr>)"
    and nxt: "\<forall>si2 w2. check_task_status ?w1 ''0a1b2c3d'' = Inr (si2, w2) \<and> status_of si2 = ''completed'' \<longrightarrow>
              (\<exists>n2 r2. n < n2 \<and>
                 si2 = Completed ''0a1b2c3d'' r2 (py_int (clock ?w n2 - started_at ?md)) \<and>
                 meta_files w2 ?mf =
                   Some (?md\<lparr>status := ''completed'', completed_at := Some (clock ?w n2)\<rparr>) \<and>
                 (clock ?w n \<le> clock ?w n2 \<longrightarrow>
                    py_int (clock ?w n - started_at ?md) \<le> py_int (clock ?w n2 - started_at ?md)) \<and>
                 (started_at ?md \<le> clock ?w n \<and> clock ?w n + 1 \<le> clock ?w n2 \<longrightarrow>
                    py_int (clock ?w n - started_at ?md) < py_int (clock ?w n2 - started_at ?md)))"
    by blast
  from si n have n1: "n = Suc 0"
    by (auto simp: example_world_simps example_metadata_def py_int_def)
  from m1 n1 have a1: "map_option completed_at (meta_files ?w1 ?mf) = Some (Some 1021)"
    by (simp add: example_world_simps)
  have ex1: "capture_files ?w1 ?so \<noteq> None \<or> capture_files ?w1 ?se \<noteq> None"
    by (simp add: completed_world_simps example_world_simps)
  have idle1: "\<not> clock ?w1 (ticks ?w1) - latest_mtime (capture_files ?w1 ?so) (capture_files ?w1 ?se) < 10"
    by (simp add: completed_world_simps example_world_simps latest_mtime_def)
  let ?md1 = "?md\<lparr>status := ''completed'', completed_at := Some (clock ?w (Suc (ticks ?w)))\<rparr>"
  let ?w2 = "completed_world ?w1 ?mf ?md1 (Suc (ticks ?w1))"
  have c2: "check_task_status ?w1 ''0a1b2c3d'' = Inr (Completed ''0a1b2c3d'' ''done'' 24, ?w2)"
    using check_task_status_idle [OF example_paths completed_world_simps(1) ex1 idle1]
    by (simp add: completed_world_simps example_world_simps read_text_def res
        example_metadata_def py_int_def)
  have s2: "status_of (Completed ''0a1b2c3d'' ''done'' 24) = ''completed''" by simp
  from nxt c2 s2 obtain n2 r2 where
    m2: "meta_files ?w2 ?mf = Some (?md\<lparr>status := ''completed'', completed_at := Some (clock ?w n2)\<rparr>)"
    and si2: "Completed ''0a1b2c3d'' ''done'' 24 =
               Completed ''0a1b2c3d'' r2 (py_int (clock ?w n2 - started_at ?md))"
    by blast
  have "meta_files ?w2 ?mf = Some (?md1\<lparr>status := ''completed'', completed_at := Some (clock ?w1 (Suc (ticks ?w1)))\<rparr>)"
    by (rule completed_world_simps(1))
  then have a2: "map_option completed_at (meta_files ?w2 ?mf) = Some (Some 1024)"
    by (simp add: completed_world_simps example_world_simps)
  from c1 a1 c2 a2 show ?thesis by simp
qed

section \<open>The dispatcher's responses\<close>

subsection \<open>Claims C9 and C6\<close>

lemma response_simps:
  "response_id (result_response i res) = Some i"
  "response_id (error_response i c m) = Some i"
  "response_error_code (result_response i res) = None"
  "response_error_code (error_response i c m) = Some (JNum (of_int c))"
  "response_result (result_response i res) = Some res"
  "response_result (error_response i c m) = None"
  "response_text (result_response i (text_content t)) = Some t"
  "response_text (error_response i c m) = None"
  by (simp_all add: response_id_def response_error_code_def response_result_def
      response_text_def result_response_def error_response_def text_content_def)

text \<open>
  C9. For every two \<open>tools/list\<close> requests, whatever their other entries, the library
  and the world they run in, each gets one response, a result; the two results are
  the same constant \<open>tools_list_result\<close>, and the world is left as it was.
\<close>

theorem tools_list_constant:
  assumes "dict_get r1 ''method'' = JStr ''tools/list''"
    and "dict_get r2 ''method'' = JStr ''tools/list''"
  shows "handle_request L1 w1 (JObj r1) =
           Inr ([result_response (dict_get r1 ''id'') tools_list_result], w1) \<and>
         handle_request L2 w2 (JObj r2) =
           Inr ([result_response (dict_get r2 ''id'') tools_list_result], w2) \<and>
         response_result (result_response (dict_get r1 ''id'') tools_list_result) =
           response_result (result_response (dict_get r2 ''id'') tools_list_result)"
  using assms by (simp add: handle_request_def as_dict_def Let_def response_simps)

text \<open>
  C9 on two requests with different ids, in different worlds.
\<close>

theorem tools_list_constant_witness:
  "handle_request example_library (example_world 1000 None None 1020)
     (JObj [(''jsonrpc'', JStr ''2.0''), (''id'', JNum 7), (''method'', JStr ''tools/list'')]) =
     Inr ([result_response (JNum 7) tools_list_result], example_world 1000 None None 1020) \<and>
   handle_request example_library (example_world 0 None None 5)
     (JObj [(''method'', JStr ''tools/list''), (''id'', JStr ''b''), (''params'', JObj [])]) =
     Inr ([result_response (JStr ''b'') tools_list_result], example_world 0 None None 5) \<and>
   response_result (result_response (JNum 7) tools_list_result) =
     response_result (result_response (JStr ''b'') tools_list_result)"
proof -
  have m1: "dict_get [(''jsonrpc'', JStr ''2.0''), (''id'', JNum 7), (''method'', JStr ''tools/list'')]
              ''method'' = JStr ''tools/list''"
    by (simp add: dict_get_def dict_get_default_def)
  have m2: "dict_get [(''method'', JStr ''tools/list''), (''id'', JStr ''b''), (''params'', JObj [])]
              ''method'' = JStr ''tools/list''"
    by (simp add: dict_get_def dict_get_default_def)
  from tools_list_constant [OF m1 m2, of example_library "example_world 1000 None None 1020"
      example_library "example_world 0 None None 5"]
  show ?thesis by (simp add: dict_get_def dict_get_default_def)
qed

text \<open>
  C6. A request object whose \<open>method\<close> is none of \<open>initialize\<close>, \<open>tools/list\<close> and
  \<open>tools/call\<close> (a missing method reads as \<open>None\<close>), and a \<open>tools/call\<close> request whose
  \<open>params\<close> object names none of the three tools, get one response: an error with
  code -32601 that carries the \<open>id\<close> of the request.
\<close>

theorem unknown_method_or_tool:
  "(dict_get req ''method'' \<noteq> JStr ''initialize'' \<and> dict_get req ''method'' \<noteq> JStr ''tools/list'' \<and>
    dict_get req ''method'' \<noteq> JStr ''tools/call'' \<longrightarrow>
      handle_request L w (JObj req) =
        Inr ([error_response (dict_get req ''id'') (- 32601)
                (''Method not found: '' @ py_str L (dict_get req ''method''))], w)) \<and>
   (dict_get req ''method'' = JStr ''tools/call'' \<and>
    dict_get_default req ''params'' (JObj []) = JObj ps \<and>
    dict_get ps ''name'' \<noteq> JStr ''codex_execute'' \<and>
    dict_get ps ''name'' \<noteq> JStr ''codex_execute_async'' \<and>
    dict_get ps ''name'' \<noteq> JStr ''codex_check_result'' \<longrightarrow>
      handle_request L w (JObj req) =
        Inr ([error_response (dict_get req ''id'') (- 32601)
                (''Unknown tool: '' @ py_str L (dict_get ps ''name''))], w)) \<and>
   response_id (error_response (dict_get req ''id'') (- 32601) msg) = Some (dict_get req ''id'') \<and>
   response_error_code (error_response (dict_get req ''id'') (- 32601) msg) = Some (JNum (- 32601))"
  by (simp add: handle_request_def call_tool_def as_dict_def Let_def response_simps)

lemmas dict_eval = dict_get_def dict_get_default_def

text \<open>
  C6 on an unknown method and on an unknown tool.
\<close>

theorem unknown_method_or_tool_witness:
  "handle_request example_library (example_world 1000 None None 1020)
     (JObj [(''jsonrpc'', JStr ''2.0''), (''id'', JNum 3), (''method'', JStr ''resources/list'')]) =
     Inr ([error_response (JNum 3) (- 32601) ''Method not found: resources/list''],
          example_world 1000 None None 1020) \<and>
   handle_request example_library (example_world 1000 None None 1020)
     (tool_call (JNum 4) ''codex_cancel'' []) =
     Inr ([error_response (JNum 4) (- 32601) ''Unknown tool: codex_cancel''],
          example_world 1000 None None 1020) \<and>
   response_id (error_response (JNum 4) (- 32601) ''Unknown tool: codex_cancel'') = Some (JNum 4) \<and>
   response_error_code (error_response (JNum 4) (- 32601) ''Unknown tool: codex_cancel'')
     = Some (JNum (- 32601))"
proof -
  let ?r1 = "[(''jsonrpc'', JStr ''2.0''), (''id'', JNum 3), (''method'', JStr ''resources/list'')]"
  let ?ps = "[(''name'', JStr ''codex_cancel''), (''arguments'', JObj [])]"
  let ?r2 = "[(''jsonrpc'', JStr ''2.0''), (''id'', JNum 4), (''method'', JStr ''tools/call''),
              (''params'', JObj ?ps)]"
  let ?w = "example_world 1000 None None 1020"
  have h1: "dict_get ?r1 ''method'' \<noteq> JStr ''initialize'' \<and>
            dict_get ?r1 ''method'' \<noteq> JStr ''tools/list'' \<and>
            dict_get ?r1 ''method'' \<noteq> JStr ''tools/call''"
    by (simp add: dict_eval)
  have h2: "dict_get ?r2 ''method'' = JStr ''tools/call'' \<and>
            dict_get_default ?r2 ''params'' (JObj []) = JObj ?ps \<and>
            dict_get ?ps ''name'' \<noteq> JStr ''codex_execute'' \<and>
            dict_get ?ps ''name'' \<noteq> JStr ''codex_execute_async'' \<and>
            dict_get ?ps ''name'' \<noteq> JStr ''codex_check_result''"
    by (simp add: dict_eval)
  from unknown_method_or_tool [where req="?r1" and L=example_library and w="?w"] h1
  have a: "handle_request example_library ?w (JObj ?r1) =
        Inr ([error_response (dict_get ?r1 ''id'') (- 32601)
                (''Method not found: '' @ py_str example_library (dict_get ?r1 ''method''))], ?w)"
    by blast
  from unknown_method_or_tool [where req="?r2" and ps="?ps" and L=example_library and w="?w" and msg="''Unknown tool: codex_cancel''"] h2
  have b: "handle_request example_library ?w (JObj ?r2) =
        Inr ([error_response (dict_get ?r2 ''id'') (- 32601)
                (''Unknown tool: '' @ py_str example_library (dict_get ?ps ''name''))], ?w)"
    and c: "response_id (error_response (dict_get ?r2 ''id'') (- 32601) ''Unknown tool: codex_cancel'')
              = Some (dict_get ?r2 ''id'')"
    and d: "response_error_code (error_response (dict_get ?r2 ''id'') (- 32601) ''Unknown tool: codex_cancel'')
              = Some (JNum (- 32601))"
    by blast+
  from a b c d show ?thesis
    by (simp add: dict_eval py_str_def tool_call_def)
qed

subsection \<open>Claim C7\<close>

text \<open>
  C7. For a \<open>codex_execute\<close> call whose command line was built, the synchronous
  executor returns a string: \<^verbatim>\<open>Error: Codex execution timed out\<close> when the run exceeds
  its timeout, \<^verbatim>\<open>Error calling Codex: \<close> followed by the exception's text when the run
  raises. The dispatcher sends that string as the text of a result; the response has
  no \<open>error\<close> entry.
\<close>

theorem sync_failures_are_text:
  assumes "dict_get req ''method'' = JStr ''tools/call''"
    and "dict_get_default req ''params'' (JObj []) = JObj ps"
    and "dict_get ps ''name'' = JStr ''codex_execute''"
    and "dict_get_default ps ''arguments'' (JObj []) = JObj a"
    and "build_cmd (dict_get_default a ''subcommand'' (JStr ''exec'')) (dict_get a ''prompt'')
           (dict_get_default a ''args'' (JArr [])) = Inr cmd"
  shows "\<exists>t. call_codex_sync w (dict_get_default a ''subcommand'' (JStr ''exec''))
               (dict_get a ''prompt'') (dict_get_default a ''args'' (JArr []))
               (dict_get a ''timeout'') = Inr t \<and>
             (run w cmd (dict_get a ''timeout'') = TimeoutExpired \<longrightarrow>
                t = ''Error: Codex execution timed out'') \<and>
             (\<forall>msg. run w cmd (dict_get a ''timeout'') = Raised msg \<longrightarrow>
                t = ''Error calling Codex: '' @ msg) \<and>
             handle_request L w (JObj req) =
               Inr ([result_response (dict_get req ''id'') (text_content t)], w) \<and>
             response_text (result_response (dict_get req ''id'') (text_content t)) = Some t \<and>
             response_error_code (result_response (dict_get req ''id'') (text_content t)) = None"
  using assms
  by (simp add: handle_request_def call_tool_def call_codex_sync_def as_dict_def Let_def
      response_simps)

text \<open>
  C7 on a call whose run times out.
\<close>

theorem sync_failures_are_text_witness:
  "handle_request example_library (example_world 1000 None None 1020)
     (tool_call (JNum 5) ''codex_execute''
        [(''prompt'', JStr ''say hi''), (''args'', JArr [JStr ''--full-auto'']), (''timeout'', JNum 1)]) =
     Inr ([result_response (JNum 5) (text_content ''Error: Codex execution timed out'')],
          example_world 1000 None None 1020) \<and>
   response_error_code (result_response (JNum 5) (text_content ''Error: Codex execution timed out''))
     = None"
proof -
  let ?a = "[(''prompt'', JStr ''say hi''), (''args'', JArr [JStr ''--full-auto'']), (''timeout'', JNum 1)]"
  let ?ps = "[(''name'', JStr ''codex_execute''), (''arguments'', JObj ?a)]"
  let ?req = "[(''jsonrpc'', JStr ''2.0''), (''id'', JNum 5), (''method'', JStr ''tools/call''),
              (''params'', JObj ?ps)]"
  let ?w = "example_world 1000 None None 1020"
  let ?cmd = "[JStr ''codex'', JStr ''exec'', JStr ''say hi'', JStr ''--full-auto'']"
  have h1: "dict_get ?req ''method'' = JStr ''tools/call''" by (simp add: dict_eval)
  have h2: "dict_get_default ?req ''params'' (JObj []) = JObj ?ps" by (simp add: dict_eval)
  have h3: "dict_get ?ps ''name'' = JStr ''codex_execute''" by (simp add: dict_eval)
  have h4: "dict_get_default ?ps ''arguments'' (JObj []) = JObj ?a" by (simp add: dict_eval)
  have h5: "build_cmd (dict_get_default ?a ''subcommand'' (JStr ''exec'')) (dict_get ?a ''prompt'')
           (dict_get_default ?a ''args'' (JArr [])) = Inr ?cmd"
    by (simp add: dict_eval build_cmd_def iterate_def)
  have to: "run ?w ?cmd (dict_get ?a ''timeout'') = TimeoutExpired"
    by (simp add: example_world_def)
  from sync_failures_are_text [OF h1 h2 h3 h4 h5, where w="?w" and L=example_library] to
  obtain t where "t = ''Error: Codex execution timed out''"
    and "handle_request example_library ?w (JObj ?req) =
               Inr ([result_response (dict_get ?req ''id'') (text_content t)], ?w)"
    and "response_error_code (result_response (dict_get ?req ''id'') (text_content t)) = None"
    by blast
  then show ?thesis by (simp add: dict_eval tool_call_def)
qed

subsection \<open>Claim C5\<close>








subsection \<open>Claim C3\<close>

lemma path_parts_relative:
  "\<not> prefix ''/'' t \<Longrightarrow> path_join TASK_DIR t \<noteq> []"
  by (simp add: path_join_def TASK_DIR_def)

text \<open>
  C3 (amended). When the path of the metadata artifact of \<open>t\<close> can be formed, no such
  artifact exists and the existence test on that path does not raise,
  \<open>check_task_status\<close> reports \<open>not_found\<close> with the text \<^verbatim>\<open>Task t not found\<close>, for
  every string \<open>t\<close>, the empty one included, and leaves the world as it was;
  \<open>not_found\<close> is neither \<open>running\<close> nor \<open>completed\<close>. The \<open>codex_check_result\<close> tool
  answers with that text as a result, without an \<open>error\<close> entry, for every such \<open>t\<close>
  that is not empty. The path can be formed for every \<open>t\<close> that does not start
  with \<open>/\<close>.
\<close>

theorem check_result_not_found:
  "(with_suffix (path_join TASK_DIR t) ''.meta'' = Inr mf \<and> meta_files w mf = None \<and>
    stat_error w mf = None \<longrightarrow>
      check_task_status w t = Inr (NotFound (''Task '' @ t @ '' not found''), w) \<and>
      (t \<noteq> [] \<and>
       dict_get req ''method'' = JStr ''tools/call'' \<and>
       dict_get_default req ''params'' (JObj []) = JObj ps \<and>
       dict_get ps ''name'' = JStr ''codex_check_result'' \<and>
       dict_get_default ps ''arguments'' (JObj []) = JObj a \<and>
       dict_get a ''task_id'' = JStr t \<longrightarrow>
         handle_request L w (JObj req) =
           Inr ([result_response (dict_get req ''id'')
                   (text_content (''Task '' @ t @ '' not found''))], w))) \<and>
   (\<not> prefix ''/'' t \<longrightarrow> (\<exists>p. with_suffix (path_join TASK_DIR t) ''.meta'' = Inr p)) \<and>
   status_of (NotFound (''Task '' @ t @ '' not found'')) = ''not_found'' \<and>
   ''not_found'' \<noteq> ''running'' \<and> ''not_found'' \<noteq> ''completed'' \<and>
   response_text (result_response (dict_get req ''id'')
                    (text_content (''Task '' @ t @ '' not found'')))
     = Some (''Task '' @ t @ '' not found'') \<and>
   response_error_code (result_response (dict_get req ''id'')
                          (text_content (''Task '' @ t @ '' not found''))) = None"
proof -
  have nf: "check_task_status w t = Inr (NotFound (''Task '' @ t @ '' not found''), w)"
    if "with_suffix (path_join TASK_DIR t) ''.meta'' = Inr mf" "meta_files w mf = None"
      "stat_error w mf = None"
    using that by (simp add: check_task_status_def)
  have hr: "handle_request L w (JObj req) =
           Inr ([result_response (dict_get req ''id'')
                   (text_content (''Task '' @ t @ '' not found''))], w)"
    if "check_task_status w t = Inr (NotFound (''Task '' @ t @ '' not found''), w)"
      "t \<noteq> []" "dict_get req ''method'' = JStr ''tools/call''"
      "dict_get_default req ''params'' (JObj []) = JObj ps"
      "dict_get ps ''name'' = JStr ''codex_check_result''"
      "dict_get_default ps ''arguments'' (JObj []) = JObj a"
      "dict_get a ''task_id'' = JStr t"
    using that
    by (simp add: handle_request_def call_tool_def as_dict_def Let_def status_text_def)
  have rel: "\<exists>p. with_suffix (path_join TASK_DIR t) ''.meta'' = Inr p" if "\<not> prefix ''/'' t"
    using path_parts_relative [OF that] by (simp add: with_suffix_def Let_def)
  from nf hr rel show ?thesis by (auto simp: response_simps)
qed

lemma example_world_meta_other:
  "p \<noteq> [''tmp'', ''codex_tasks'', ''0a1b2c3d.meta''] \<Longrightarrow>
   meta_files (example_world started out err now) p = None"
  by (simp add: example_world_def)

lemma example_world_stat_error:
  "stat_error (example_world started out err now) p =
     (if list_ex (\<lambda>name. 255 < utf8_length name) p
      then Some (OSError ''[Errno 36] File name too long'') else None)"
  by (simp add: example_world_def)

text \<open>
  C3 on an unknown task id through the tool, and on the empty id through
  \<open>check_task_status\<close>.
\<close>

theorem check_result_not_found_witness:
  "handle_request example_library (example_world 1000 None None 1020)
     (tool_call (JNum 8) ''codex_check_result'' [(''task_id'', JStr ''deadbeef'')]) =
     Inr ([result_response (JNum 8) (text_content ''Task deadbeef not found'')],
          example_world 1000 None None 1020) \<and>
   check_task_status (example_world 1000 None None 1020) [] =
     Inr (NotFound ''Task  not found'', example_world 1000 None None 1020)"
proof -
  let ?w = "example_world 1000 None None 1020"
  let ?a = "[(''task_id'', JStr ''deadbeef'')]"
  let ?ps = "[(''name'', JStr ''codex_check_result''), (''arguments'', JObj ?a)]"
  let ?req = "[(''jsonrpc'', JStr ''2.0''), (''id'', JNum 8), (''method'', JStr ''tools/call''),
              (''params'', JObj ?ps)]"
  have p1: "with_suffix (path_join TASK_DIR ''deadbeef'') ''.meta'' =
              Inr [''tmp'', ''codex_tasks'', ''deadbeef.meta'']"
    by (simp add: path_eval)
  have m1: "meta_files ?w [''tmp'', ''codex_tasks'', ''deadbeef.meta''] = None"
    by (simp add: example_world_meta_other)
  have e1: "stat_error ?w [''tmp'', ''codex_tasks'', ''deadbeef.meta''] = None"
    by (simp add: example_world_stat_error utf8_length_def)
  have p2: "with_suffix (path_join TASK_DIR []) ''.meta'' = Inr [''tmp'', ''codex_tasks.meta'']"
    by (simp add: path_eval)
  have m2: "meta_files ?w [''tmp'', ''codex_tasks.meta''] = None"
    by (simp add: example_world_meta_other)
  have e2: "stat_error ?w [''tmp'', ''codex_tasks.meta''] = None"
    by (simp add: example_world_stat_error utf8_length_def)
  have h: "''deadbeef'' \<noteq> [] \<and>
       dict_get ?req ''method'' = JStr ''tools/call'' \<and>
       dict_get_default ?req ''params'' (JObj []) = JObj ?ps \<and>
       dict_get ?ps ''name'' = JStr ''codex_check_result'' \<and>
       dict_get_default ?ps ''arguments'' (JObj []) = JObj ?a \<and>
       dict_get ?a ''task_id'' = JStr ''deadbeef''"
    by (simp add: dict_eval)
  note t1 = check_result_not_found [where t="''deadbeef''" and mf="[''tmp'', ''codex_tasks'', ''deadbeef.meta'']"
      and w="?w" and req="?req" and ps="?ps" and a="?a" and L=example_library]
  note t2 = check_result_not_found [where t="[]" and mf="[''tmp'', ''codex_tasks.meta'']"
      and w="?w" and req="?req" and ps="?ps" and a="?a" and L=example_library]
  from t1 p1 m1 e1 h have a: "handle_request example_library ?w (JObj ?req) =
           Inr ([result_response (dict_get ?req ''id'')
                   (text_content (''Task '' @ ''deadbeef'' @ '' not found''))], ?w)"
    by blast
  from t2 p2 m2 e2 have b: "check_task_status ?w [] = Inr (NotFound (''Task '' @ [] @ '' not found''), ?w)"
    by blast
  from a b show ?thesis by (simp add: dict_eval tool_call_def)
qed

text \<open>
  C3 as stated fails: no metadata artifact exists for the empty string, and the
  \<open>codex_check_result\<close> tool answers the empty \<open>task_id\<close> with the invalid-params
  error -32602, not with a text result.
\<close>

theorem check_result_empty_id_counterexample:
  "with_suffix (path_join TASK_DIR []) ''.meta'' = Inr [''tmp'', ''codex_tasks.meta''] \<and>
   meta_files (example_world 1000 None None 1020) [''tmp'', ''codex_tasks.meta''] = None \<and>
   handle_request example_library (example_world 1000 None None 1020)
     (tool_call (JNum 9) ''codex_check_result'' [(''task_id'', JStr [])]) =
     Inr ([error_response (JNum 9) (- 32602) ''task_id is required''],
          example_world 1000 None None 1020) \<and>
   response_error_code (error_response (JNum 9) (- 32602) ''task_id is required'')
     = Some (JNum (- 32602)) \<and>
   response_text (error_response (JNum 9) (- 32602) ''task_id is required'') = None"
proof -
  have "with_suffix (path_join TASK_DIR []) ''.meta'' = Inr [''tmp'', ''codex_tasks.meta'']"
    by (simp add: path_eval)
  moreover have "meta_files (example_world 1000 None None 1020) [''tmp'', ''codex_tasks.meta''] = None"
    by (simp add: example_world_meta_other)
  moreover have "handle_request example_library (example_world 1000 None None 1020)
     (tool_call (JNum 9) ''codex_check_result'' [(''task_id'', JStr [])]) =
     Inr ([error_response (JNum 9) (- 32602) ''task_id is required''],
          example_world 1000 None None 1020)"
    by (simp add: handle_request_def call_tool_def tool_call_def as_dict_def dict_eval Let_def)
  ultimately show ?thesis by (simp add: response_simps)
qed

text \<open>
  An id of 251 characters gives a metadata file name of 256: in the example world the
  existence test raises, and \<open>check_task_status\<close> returns nothing.
\<close>

lemma split_sep_plain: "CHR ''/'' \<notin> set s \<Longrightarrow> split_sep s = [s]"
  by (induction s) auto

lemma path_suffix_plain: "CHR ''.'' \<notin> set name \<Longrightarrow> path_suffix name = []"
proof -
  assume "CHR ''.'' \<notin> set name"
  then have "\<forall>x\<in>set (rev name). x \<noteq> CHR ''.''" by auto
  then have tw: "takeWhile (\<lambda>c. c \<noteq> CHR ''.'') (rev name) = rev name"
    by (simp only: takeWhile_eq_all_conv)
  show ?thesis unfolding path_suffix_def Let_def tw by simp
qed

lemma long_task_id_raises:
  "check_task_status (example_world 1000 None None 1020) (replicate 251 CHR ''a'')
     = Inl (OSError ''[Errno 36] File name too long'')"
proof -
  let ?t = "replicate 251 CHR ''a''"
  have sp: "split_sep ?t = [?t]" by (rule split_sep_plain) simp
  have sx: "path_suffix ?t = []" by (rule path_suffix_plain) simp
  have "length ?t = 251" by simp
  then have ne: "?t \<noteq> [] \<and> ?t \<noteq> ''.''" by (metis length_0_conv length_Cons list.size(3) numeral_eq_one_iff semiring_norm(86) zero_neq_numeral One_nat_def)
  have rel: "\<not> prefix ''/'' ?t"
    by (auto simp: prefix_def dest!: arg_cong [where f = hd])
  have pj: "path_join TASK_DIR ?t = [''tmp'', ''codex_tasks'', ?t]"
    using sp ne rel by (simp add: path_join_def path_parts_def TASK_DIR_def)
  have ws: "with_suffix (path_join TASK_DIR ?t) ''.meta'' = Inr [''tmp'', ''codex_tasks'', ?t @ ''.meta'']"
    by (simp add: pj with_suffix_def Let_def sx)
  have neq: "[''tmp'', ''codex_tasks'', ?t @ ''.meta''] \<noteq> [''tmp'', ''codex_tasks'', ''0a1b2c3d.meta'']"
    by (auto dest!: arg_cong [where f = length])
  have len: "utf8_length (?t @ ''.meta'') = 256"
    by (simp add: utf8_length_def sum_list_replicate)
  have se: "stat_error (example_world 1000 None None 1020) [''tmp'', ''codex_tasks'', ?t @ ''.meta'']
              = Some (OSError ''[Errno 36] File name too long'')"
    by (simp add: example_world_stat_error len)
  show ?thesis
    by (simp add: check_task_status_def ws example_world_meta_other [OF neq] se)
qed

section \<open>The launcher's artifacts\<close>

subsection \<open>Claim C8\<close>

lemma hex_digit_mem: "hex_digit n \<in> set ''0123456789abcdef''"
  unfolding hex_digit_def by (rule nth_mem) simp

lemma uuid_hex_set: "set (uuid_hex u) \<subseteq> set ''0123456789abcdef''"
  unfolding uuid_hex_def using hex_digit_mem by auto

lemma uuid_hex_length: "length (uuid_hex u) = 32"
  by (simp add: uuid_hex_def)

lemma task_id_hex: "take 8 (uuid_str u) = take 8 (uuid_hex u)"
  by (simp add: uuid_str_def Let_def uuid_hex_length)

lemma task_id_relative: "\<not> prefix ''/'' (take 8 (uuid_str u))"
proof
  assume "prefix ''/'' (take 8 (uuid_str u))"
  then have "CHR ''/'' \<in> set (take 8 (uuid_hex u))"
    by (auto simp: prefix_def task_id_hex dest: arg_cong [where f = set])
  then have "CHR ''/'' \<in> set (uuid_hex u)" by (rule in_set_takeD)
  with uuid_hex_set show False by auto
qed

lemma task_paths_formed: "\<exists>p. with_suffix (path_join TASK_DIR (take 8 (uuid_str u))) sfx = Inr p"
  using path_parts_relative [OF task_id_relative, of u]
  by (simp add: with_suffix_def Let_def)

text \<open>
  C8. Whenever \<open>start_codex_async\<close> returns a task id, the world it leaves holds the
  stdout capture, the stderr capture and the metadata record of that id, and the
  record has \<open>status = running\<close>, the id, and as \<open>started_at\<close> the clock reading taken at
  the launch. It does return an id (the first eight characters of the UUID drawn)
  whenever the command line is built, the process starts and the command joins.
\<close>

theorem launch_creates_artifacts:
  "(start_codex_async w subcommand prompt args = Inr (tid, w') \<longrightarrow>
      (\<exists>so se mf md.
         with_suffix (path_join TASK_DIR tid) ''.stdout'' = Inr so \<and>
         with_suffix (path_join TASK_DIR tid) ''.stderr'' = Inr se \<and>
         with_suffix (path_join TASK_DIR tid) ''.meta'' = Inr mf \<and>
         capture_files w' so \<noteq> None \<and> capture_files w' se \<noteq> None \<and>
         meta_files w' mf = Some md \<and>
         status md = ''running'' \<and> started_at md = clock w (ticks w) \<and> task_id md = tid \<and>
         tid = take 8 (uuid_str (uuid4 w (draws w))))) \<and>
   (build_cmd subcommand prompt args = Inr cmd \<and> popen w cmd = Inr p \<and> join_cmd cmd = Inr c \<longrightarrow>
      (\<exists>w2. start_codex_async w subcommand prompt args =
               Inr (take 8 (uuid_str (uuid4 w (draws w))), w2)))"
proof (intro conjI impI)
  assume r: "start_codex_async w subcommand prompt args = Inr (tid, w')"
  then show "\<exists>so se mf md.
         with_suffix (path_join TASK_DIR tid) ''.stdout'' = Inr so \<and>
         with_suffix (path_join TASK_DIR tid) ''.stderr'' = Inr se \<and>
         with_suffix (path_join TASK_DIR tid) ''.meta'' = Inr mf \<and>
         capture_files w' so \<noteq> None \<and> capture_files w' se \<noteq> None \<and>
         meta_files w' mf = Some md \<and>
         status md = ''running'' \<and> started_at md = clock w (ticks w) \<and> task_id md = tid \<and>
         tid = take 8 (uuid_str (uuid4 w (draws w)))"
    by (auto simp: start_codex_async_def Let_def time_time_def create_capture_def
        split: sum.splits)
next
  assume a: "build_cmd subcommand prompt args = Inr cmd \<and> popen w cmd = Inr p \<and> join_cmd cmd = Inr c"
  let ?tid = "take 8 (uuid_str (uuid4 w (draws w)))"
  from task_paths_formed obtain so se mf where
    "with_suffix (path_join TASK_DIR ?tid) ''.stdout'' = Inr so"
    "with_suffix (path_join TASK_DIR ?tid) ''.stderr'' = Inr se"
    "with_suffix (path_join TASK_DIR ?tid) ''.meta'' = Inr mf"
    by meson
  with a show "\<exists>w2. start_codex_async w subcommand prompt args = Inr (?tid, w2)"
    by (simp add: start_codex_async_def Let_def time_time_def create_capture_def)
qed

lemma rev_upt_32:
  "rev [0..<32] = [31,30,29,28,27,26,25,24,23,22,21,20,19,18,17,16,15,14,13,12,11,10,9,8,7,6,5,4,3,2,1,0::nat]"
  by (simp add: upt_rec)

lemma example_task_id:
  "take 8 (uuid_str (uuid4 (example_world started out err now) (draws (example_world started out err now))))
     = ''005d5d7e''"
proof -
  have "take 8 (uuid_hex 0x005d5d7e7249412a9bd912760476fd18) = ''005d5d7e''"
    by (simp add: uuid_hex_def rev_upt_32 hex_digit_def unat_drop_bit_eq drop_bit_eq_div)
  then show ?thesis by (simp add: task_id_hex example_world_def)
qed

text \<open>
  C8 on a launch in a world whose UUID source gives \<open>005d5d7e-...\<close>.
\<close>

theorem launch_creates_artifacts_witness:
  "(case start_codex_async (example_world 1000 None None 1020) (JStr ''exec'') (JStr ''say hi'')
           (JArr [JStr ''--full-auto'']) of
      Inl e \<Rightarrow> False
    | Inr (tid, w') \<Rightarrow>
        tid = ''005d5d7e'' \<and>
        capture_files w' [''tmp'', ''codex_tasks'', ''005d5d7e.stdout''] \<noteq> None \<and>
        capture_files w' [''tmp'', ''codex_tasks'', ''005d5d7e.stderr''] \<noteq> None \<and>
        map_option status (meta_files w' [''tmp'', ''codex_tasks'', ''005d5d7e.meta'']) = Some ''running'' \<and>
        map_option started_at (meta_files w' [''tmp'', ''codex_tasks'', ''005d5d7e.meta'']) = Some 1020)"
proof -
  let ?w = "example_world 1000 None None 1020"
  let ?cmd = "[JStr ''codex'', JStr ''exec'', JStr ''say hi'', JStr ''--full-auto'']"
  have h: "build_cmd (JStr ''exec'') (JStr ''say hi'') (JArr [JStr ''--full-auto'']) = Inr ?cmd \<and>
           popen ?w ?cmd = Inr 4242 \<and> join_cmd ?cmd = Inr ''codex exec say hi --full-auto''"
    by (simp add: build_cmd_def iterate_def example_world_def)
  note t = launch_creates_artifacts [where w="?w" and subcommand="JStr ''exec''"
      and prompt="JStr ''say hi''" and args="JArr [JStr ''--full-auto'']" and cmd="?cmd"
      and p=4242 and c="''codex exec say hi --full-auto''"]
  from t h obtain w2 where
    r: "start_codex_async ?w (JStr ''exec'') (JStr ''say hi'') (JArr [JStr ''--full-auto'']) =
          Inr (''005d5d7e'', w2)"
    unfolding example_task_id by blast
  from launch_creates_artifacts [where w="?w" and subcommand="JStr ''exec''"
      and prompt="JStr ''say hi''" and args="JArr [JStr ''--full-auto'']"
      and tid="''005d5d7e''" and w'=w2] r
  obtain so se mf md where
    "with_suffix (path_join TASK_DIR ''005d5d7e'') ''.stdout'' = Inr so"
    "with_suffix (path_join TASK_DIR ''005d5d7e'') ''.stderr'' = Inr se"
    "with_suffix (path_join TASK_DIR ''005d5d7e'') ''.meta'' = Inr mf"
    "capture_files w2 so \<noteq> None" "capture_files w2 se \<noteq> None"
    "meta_files w2 mf = Some md"
    "status md = ''running''" "started_at md = clock ?w (ticks ?w)"
    by blast
  then have
    "capture_files w2 [''tmp'', ''codex_tasks'', ''005d5d7e.stdout''] \<noteq> None"
    "capture_files w2 [''tmp'', ''codex_tasks'', ''005d5d7e.stderr''] \<noteq> None"
    "map_option status (meta_files w2 [''tmp'', ''codex_tasks'', ''005d5d7e.meta'']) = Some ''running''"
    "map_option started_at (meta_files w2 [''tmp'', ''codex_tasks'', ''005d5d7e.meta'']) = Some 1020"
    by (simp_all add: path_eval example_world_simps)
  with r show ?thesis by simp
qed

end
